theory Spec2Isabelle
  imports Complex_Main
begin

section \<open>Scene data: vectors, quaternions, bones, keyframe tracks\<close>

text \<open>
  JavaScript numbers are modelled as real numbers. A \<open>THREE.Vector3\<close> is a triple, a
  \<open>THREE.Quaternion\<close> carries its components in the order x, y, z, w.
\<close>

type_synonym vec3 = "real \<times> real \<times> real"

datatype quat = Quat (qx: real) (qy: real) (qz: real) (qw: real)

text \<open>The operations of \<open>THREE.Quaternion\<close> that the sources call.\<close>

definition quat_identity :: quat where
  "quat_identity = Quat 0 0 0 1"

definition multiplyQuaternions :: "quat \<Rightarrow> quat \<Rightarrow> quat" where
  "multiplyQuaternions a b =
     Quat (qx a * qw b + qw a * qx b + qy a * qz b - qz a * qy b)
          (qy a * qw b + qw a * qy b + qz a * qx b - qx a * qz b)
          (qz a * qw b + qw a * qz b + qx a * qy b - qy a * qx b)
          (qw a * qw b - qx a * qx b - qy a * qy b - qz a * qz b)"

definition multiply :: "quat \<Rightarrow> quat \<Rightarrow> quat" where
  "multiply this q = multiplyQuaternions this q"

definition premultiply :: "quat \<Rightarrow> quat \<Rightarrow> quat" where
  "premultiply this q = multiplyQuaternions q this"

definition invert :: "quat \<Rightarrow> quat" where
  "invert q = Quat (- qx q) (- qy q) (- qz q) (qw q)"

definition setFromEuler :: "vec3 \<Rightarrow> quat" where
  "setFromEuler e =
     (case e of (x, y, z) \<Rightarrow>
        let c1 = cos (x / 2); c2 = cos (y / 2); c3 = cos (z / 2);
            s1 = sin (x / 2); s2 = sin (y / 2); s3 = sin (z / 2)
        in Quat (s1 * c2 * c3 + c1 * s2 * s3)
                (c1 * s2 * c3 - s1 * c2 * s3)
                (c1 * c2 * s3 + s1 * s2 * c3)
                (c1 * c2 * c3 - s1 * s2 * s3))"


text \<open>
  A bone is a \<open>THREE.Object3D\<close>, of which the sources read the name and the local position.
  An avatar exposes its humanoid rig as a lookup from canonical bone names to bones; the
  rig itself may be missing (\<open>vrm.humanoid?\<close>), and so may any bone.
\<close>

record node =
  name :: string
  position :: vec3

record vrm =
  humanoid :: "(string \<Rightarrow> node option) option"
  metaVersion :: "string option"
  hipsRestY :: "real option"

definition getNormalizedBoneNode :: "vrm \<Rightarrow> string \<Rightarrow> node option" where
  "getNormalizedBoneNode v n = (case humanoid v of None \<Rightarrow> None | Some h \<Rightarrow> h n)"

text \<open>
  A keyframe track has a name, its key times and its values; the values of a quaternion
  track are kept as quaternions and those of a vector track as triples (the flat arrays of
  the source, four and three numbers at a time).
\<close>

datatype track =
    QuaternionKeyframeTrack string "real list" "quat list"
  | VectorKeyframeTrack string "real list" "vec3 list"
  | NumberKeyframeTrack string "real list" "real list"

fun track_name :: "track \<Rightarrow> string" where
  "track_name (QuaternionKeyframeTrack n ts vs) = n"
| "track_name (VectorKeyframeTrack n ts vs) = n"
| "track_name (NumberKeyframeTrack n ts vs) = n"

record clip =
  clip_name :: string
  duration :: real
  tracks :: "track list"

section \<open>Procedural animations\<close>

definition L_UP :: vec3 where "L_UP = (0.2, 0, 1.15)"
definition R_UP :: vec3 where "R_UP = (0.2, 0, -1.15)"
definition L_LO :: vec3 where "L_LO = (0, 0, 0.08)"
definition R_LO :: vec3 where "R_LO = (0, 0, -0.08)"

definition getBone :: "vrm \<Rightarrow> string \<Rightarrow> node option" where
  "getBone v n = getNormalizedBoneNode v n"

definition quatTrack :: "node \<Rightarrow> real list \<Rightarrow> vec3 list \<Rightarrow> track" where
  "quatTrack bone ts eulers =
     QuaternionKeyframeTrack (name bone @ ''.quaternion'') ts (map setFromEuler eulers)"

definition posTrack :: "node \<Rightarrow> real list \<Rightarrow> vec3 list \<Rightarrow> track" where
  "posTrack bone ts offsets =
     VectorKeyframeTrack (name bone @ ''.position'') ts
       (map (\<lambda>(dx, dy, dz). case position bone of (px, py, pz) \<Rightarrow> (px + dx, py + dy, pz + dz))
            offsets)"

definition addEuler :: "vec3 \<Rightarrow> real \<Rightarrow> real \<Rightarrow> real \<Rightarrow> vec3" where
  "addEuler base dx dy dz = (case base of (bx, by, bz) \<Rightarrow> (bx + dx, by + dy, bz + dz))"

text \<open>\<open>if (bone) tracks.push(f(bone))\<close>: the tracks pushed for a bone that may be absent.\<close>

definition push_if :: "node option \<Rightarrow> (node \<Rightarrow> track list) \<Rightarrow> track list" where
  "push_if bone f = (case bone of None \<Rightarrow> [] | Some b \<Rightarrow> f b)"

text \<open>\<open>tracks.length > 0 ? new THREE.AnimationClip(n, dur, tracks) : null\<close>\<close>

definition clip_or_null :: "string \<Rightarrow> real \<Rightarrow> track list \<Rightarrow> clip option" where
  "clip_or_null n dur ts =
     (if length ts > 0 then Some \<lparr>clip_name = n, duration = dur, tracks = ts\<rparr> else None)"

definition idle_breathe :: "vrm \<Rightarrow> clip option" where
  "idle_breathe v =
     (let dur = 4.0;
          spine = getBone v ''spine'';
          chest = getBone v ''chest'';
          head = getBone v ''head'';
          lArm = getBone v ''leftUpperArm'';
          rArm = getBone v ''rightUpperArm'';
          hips = getBone v ''hips'';
          tracks =
            push_if spine (\<lambda>b.
              [posTrack b [0, 1.3, 2.6, dur]
                 [(0, 0, 0), (0, 0.003, 0), (0, 0.001, 0), (0, 0, 0)]])
          @ push_if chest (\<lambda>b.
              [quatTrack b [0, 1.3, 2.6, dur]
                 [(0, 0, 0), (0.015, 0, 0), (0.005, 0, 0), (0, 0, 0)]])
          @ push_if head (\<lambda>b.
              [quatTrack b [0, 1.2, 2.0, 3.2, dur]
                 [(0.02, 0.01, 0), (-0.01, -0.02, 0), (0.015, 0.02, 0.005), (-0.01, -0.01, -0.005), (0.02, 0.01, 0)]])
          @ push_if hips (\<lambda>b.
              [posTrack b [0, 2.0, dur]
                 [(0, 0, 0), (0.003, 0, 0), (0, 0, 0)]])
          @ push_if lArm (\<lambda>b.
              [quatTrack b [0, 1.5, 3.0, dur]
                 [L_UP, addEuler L_UP 0 0 (-0.02), addEuler L_UP 0 0 0.015, L_UP]])
          @ push_if rArm (\<lambda>b.
              [quatTrack b [0, 1.5, 3.0, dur]
                 [R_UP, addEuler R_UP 0 0 0.02, addEuler R_UP 0 0 (-0.015), R_UP]])
      in clip_or_null ''idle_breathe'' dur tracks)"

definition idle_happy :: "vrm \<Rightarrow> clip option" where
  "idle_happy v =
     (let dur = 3.0;
          spine = getBone v ''spine'';
          head = getBone v ''head'';
          hips = getBone v ''hips'';
          lArm = getBone v ''leftUpperArm'';
          rArm = getBone v ''rightUpperArm'';
          tracks =
            push_if hips (\<lambda>b.
              [posTrack b [0, 0.5, 1.0, 1.5, 2.0, 2.5, dur]
                 [(0, 0, 0), (0.004, 0.005, 0), (-0.004, 0, 0), (0.004, 0.005, 0), (-0.004, 0, 0), (0.004, 0.005, 0), (0, 0, 0)]])
          @ push_if head (\<lambda>b.
              [quatTrack b [0, 0.75, 1.5, 2.25, dur]
                 [(-0.05, 0.02, 0.04), (-0.03, -0.03, -0.04), (-0.05, 0.02, 0.04), (-0.03, -0.03, -0.04), (-0.05, 0.02, 0.04)]])
          @ push_if spine (\<lambda>b.
              [quatTrack b [0, 1.5, dur]
                 [(-0.02, 0, 0), (-0.03, 0, 0), (-0.02, 0, 0)]])
          @ push_if lArm (\<lambda>b.
              [quatTrack b [0, 1.0, 2.0, dur]
                 [addEuler L_UP 0.05 0 (-0.08), addEuler L_UP 0.02 0 (-0.05), addEuler L_UP 0.05 0 (-0.08), addEuler L_UP 0.05 0 (-0.08)]])
          @ push_if rArm (\<lambda>b.
              [quatTrack b [0, 1.0, 2.0, dur]
                 [addEuler R_UP 0.05 0 0.08, addEuler R_UP 0.02 0 0.05, addEuler R_UP 0.05 0 0.08, addEuler R_UP 0.05 0 0.08]])
      in clip_or_null ''idle_happy'' dur tracks)"

definition idle_sad :: "vrm \<Rightarrow> clip option" where
  "idle_sad v =
     (let dur = 5.0;
          head = getBone v ''head'';
          spine = getBone v ''spine'';
          chest = getBone v ''chest'';
          lArm = getBone v ''leftUpperArm'';
          rArm = getBone v ''rightUpperArm'';
          tracks =
            push_if head (\<lambda>b.
              [quatTrack b [0, 2.5, dur]
                 [(0.12, -0.02, 0), (0.14, 0.02, 0), (0.12, -0.02, 0)]])
          @ push_if spine (\<lambda>b.
              [quatTrack b [0, 2.5, dur]
                 [(0.06, 0, 0), (0.07, 0, 0.01), (0.06, 0, 0)]])
          @ push_if chest (\<lambda>b.
              [quatTrack b [0, 2.5, dur]
                 [(0.04, 0, 0), (0.05, 0, 0), (0.04, 0, 0)]])
          @ push_if lArm (\<lambda>b.
              [quatTrack b [0, 2.5, dur]
                 [addEuler L_UP 0.15 0 0.05, addEuler L_UP 0.16 0 0.06, addEuler L_UP 0.15 0 0.05]])
          @ push_if rArm (\<lambda>b.
              [quatTrack b [0, 2.5, dur]
                 [addEuler R_UP 0.15 0 (-0.05), addEuler R_UP 0.16 0 (-0.06), addEuler R_UP 0.15 0 (-0.05)]])
      in clip_or_null ''idle_sad'' dur tracks)"

definition nod :: "vrm \<Rightarrow> clip option" where
  "nod v =
     (let head = getBone v ''head'';
          lArm = getBone v ''leftUpperArm'';
          rArm = getBone v ''rightUpperArm'';
          tracks =
            push_if head (\<lambda>b.
              [quatTrack b [0, 0.2, 0.5, 0.7, 1.0, 1.2]
                 [(0, 0, 0), (-0.18, 0, 0), (0.02, 0, 0), (-0.12, 0, 0), (0.01, 0, 0), (0, 0, 0)]])
          @ push_if lArm (\<lambda>b.
              [quatTrack b [0, 1.2]
                 [L_UP, L_UP]])
          @ push_if rArm (\<lambda>b.
              [quatTrack b [0, 1.2]
                 [R_UP, R_UP]])
      in if head = None then None
         else Some \<lparr>clip_name = ''nod'', duration = 1.2, tracks = tracks\<rparr>)"

definition shake :: "vrm \<Rightarrow> clip option" where
  "shake v =
     (let head = getBone v ''head'';
          lArm = getBone v ''leftUpperArm'';
          rArm = getBone v ''rightUpperArm'';
          tracks =
            push_if head (\<lambda>b.
              [quatTrack b [0, 0.15, 0.35, 0.55, 0.75, 1.0]
                 [(0, 0, 0), (0, 0.15, 0), (0, -0.15, 0), (0, 0.1, 0), (0, -0.08, 0), (0, 0, 0)]])
          @ push_if lArm (\<lambda>b.
              [quatTrack b [0, 1.0]
                 [L_UP, L_UP]])
          @ push_if rArm (\<lambda>b.
              [quatTrack b [0, 1.0]
                 [R_UP, R_UP]])
      in if head = None then None
         else Some \<lparr>clip_name = ''shake'', duration = 1.0, tracks = tracks\<rparr>)"

definition thinking :: "vrm \<Rightarrow> clip option" where
  "thinking v =
     (let head = getBone v ''head'';
          lArm = getBone v ''leftUpperArm'';
          rArm = getBone v ''rightUpperArm'';
          rForearm = getBone v ''rightLowerArm'';
          rHand = getBone v ''rightHand'';
          tracks =
            push_if head (\<lambda>b.
              [quatTrack b [0, 0.5, 2.5, 3.0]
                 [(0, 0, 0), (0.1, 0.06, 0.03), (0.1, -0.04, -0.02), (0, 0, 0)]])
          @ push_if rArm (\<lambda>b.
              [quatTrack b [0, 0.5, 2.5, 3.0]
                 [R_UP, (-0.6, 0.3, -0.3), (-0.6, 0.3, -0.3), R_UP]])
          @ push_if rForearm (\<lambda>b.
              [quatTrack b [0, 0.5, 2.5, 3.0]
                 [R_LO, (-1.2, 0, 0), (-1.2, 0, 0), R_LO]])
          @ push_if rHand (\<lambda>b.
              [quatTrack b [0, 0.5, 2.5, 3.0]
                 [(0, 0, 0), (0.2, 0, 0.1), (0.2, 0, 0.1), (0, 0, 0)]])
          @ push_if lArm (\<lambda>b.
              [quatTrack b [0, 3.0]
                 [L_UP, L_UP]])
      in clip_or_null ''thinking'' 3.0 tracks)"

definition point :: "vrm \<Rightarrow> clip option" where
  "point v =
     (let lArm = getBone v ''leftUpperArm'';
          rArm = getBone v ''rightUpperArm'';
          rForearm = getBone v ''rightLowerArm'';
          tracks =
            push_if rArm (\<lambda>b.
              [quatTrack b [0, 0.3, 1.2, 1.5]
                 [R_UP, (-0.4, 0, -1.0), (-0.4, 0, -1.0), R_UP]])
          @ push_if rForearm (\<lambda>b.
              [quatTrack b [0, 0.3, 1.2, 1.5]
                 [R_LO, (-0.3, 0, 0), (-0.3, 0, 0), R_LO]])
          @ push_if lArm (\<lambda>b.
              [quatTrack b [0, 1.5]
                 [L_UP, L_UP]])
      in clip_or_null ''point'' 1.5 tracks)"

definition shrug :: "vrm \<Rightarrow> clip option" where
  "shrug v =
     (let lArm = getBone v ''leftUpperArm'';
          rArm = getBone v ''rightUpperArm'';
          lForearm = getBone v ''leftLowerArm'';
          rForearm = getBone v ''rightLowerArm'';
          head = getBone v ''head'';
          lShoulder = getBone v ''leftShoulder'';
          rShoulder = getBone v ''rightShoulder'';
          ts = [0, 0.3, 1.0, 1.3];
          tracks =
            push_if lShoulder (\<lambda>b.
              [quatTrack b ts
                 [(0, 0, 0), (0, 0, 0.15), (0, 0, 0.15), (0, 0, 0)]])
          @ push_if rShoulder (\<lambda>b.
              [quatTrack b ts
                 [(0, 0, 0), (0, 0, -0.15), (0, 0, -0.15), (0, 0, 0)]])
          @ push_if lArm (\<lambda>b.
              [quatTrack b ts
                 [L_UP, addEuler L_UP 0 0 0.3, addEuler L_UP 0 0 0.3, L_UP]])
          @ push_if rArm (\<lambda>b.
              [quatTrack b ts
                 [R_UP, addEuler R_UP 0 0 (-0.3), addEuler R_UP 0 0 (-0.3), R_UP]])
          @ push_if lForearm (\<lambda>b.
              [quatTrack b ts
                 [L_LO, addEuler L_LO (-0.5) 0 0, addEuler L_LO (-0.5) 0 0, L_LO]])
          @ push_if rForearm (\<lambda>b.
              [quatTrack b ts
                 [R_LO, addEuler R_LO (-0.5) 0 0, addEuler R_LO (-0.5) 0 0, R_LO]])
          @ push_if head (\<lambda>b.
              [quatTrack b ts
                 [(0, 0, 0), (0, 0.05, 0.08), (0, 0.05, 0.08), (0, 0, 0)]])
      in clip_or_null ''shrug'' 1.3 tracks)"

definition wave :: "vrm \<Rightarrow> clip option" where
  "wave v =
     (let lArm = getBone v ''leftUpperArm'';
          rArm = getBone v ''rightUpperArm'';
          rForearm = getBone v ''rightLowerArm'';
          rHand = getBone v ''rightHand'';
          tracks =
            push_if rArm (\<lambda>b.
              [quatTrack b [0, 0.3, 1.8, 2.1]
                 [R_UP, (-0.2, 0, -1.5), (-0.2, 0, -1.5), R_UP]])
          @ push_if rForearm (\<lambda>b.
              [quatTrack b [0, 0.3, 1.8, 2.1]
                 [R_LO, addEuler R_LO (-1.0) 0 0, addEuler R_LO (-1.0) 0 0, R_LO]])
          @ push_if lArm (\<lambda>b.
              [quatTrack b [0, 2.1]
                 [L_UP, L_UP]])
          @ push_if rHand (\<lambda>b.
              [quatTrack b [0, 0.3, 0.6, 0.9, 1.2, 1.5, 1.8, 2.1]
                 [(0, 0, 0), (0, 0, 0.3), (0, 0, -0.3), (0, 0, 0.3), (0, 0, -0.3), (0, 0, 0.3), (0, 0, -0.3), (0, 0, 0)]])
      in clip_or_null ''wave'' 2.1 tracks)"

definition clap :: "vrm \<Rightarrow> clip option" where
  "clap v =
     (let lArm = getBone v ''leftUpperArm'';
          rArm = getBone v ''rightUpperArm'';
          lForearm = getBone v ''leftLowerArm'';
          rForearm = getBone v ''rightLowerArm'';
          ts = [0, 0.2, 0.4, 0.6, 0.8, 1.0, 1.2, 1.4, 1.6];
          clapAngles = [0, 0.15, 0, 0.15, 0, 0.15, 0, 0.1, 0];
          tracks =
            push_if lArm (\<lambda>b.
              [quatTrack b [0, 0.15, 1.5, 1.6]
                 [L_UP, addEuler L_UP (-0.6) 0.4 (-0.85), addEuler L_UP (-0.6) 0.4 (-0.85), L_UP]])
          @ push_if rArm (\<lambda>b.
              [quatTrack b [0, 0.15, 1.5, 1.6]
                 [R_UP, addEuler R_UP (-0.6) (-0.4) 0.85, addEuler R_UP (-0.6) (-0.4) 0.85, R_UP]])
          @ push_if lForearm (\<lambda>b.
              let vals = map (\<lambda>a. addEuler L_LO (-0.8) a 0) clapAngles in
              [quatTrack b ts
                 vals])
          @ push_if rForearm (\<lambda>b.
              let vals = map (\<lambda>a. addEuler R_LO (-0.8) (- a) 0) clapAngles in
              [quatTrack b ts
                 vals])
      in clip_or_null ''clap'' 1.6 tracks)"

definition bow :: "vrm \<Rightarrow> clip option" where
  "bow v =
     (let spine = getBone v ''spine'';
          chest = getBone v ''chest'';
          head = getBone v ''head'';
          lArm = getBone v ''leftUpperArm'';
          rArm = getBone v ''rightUpperArm'';
          ts = [0, 0.5, 1.5, 2.0];
          tracks =
            push_if spine (\<lambda>b.
              [quatTrack b ts
                 [(0, 0, 0), (0.25, 0, 0), (0.25, 0, 0), (0, 0, 0)]])
          @ push_if chest (\<lambda>b.
              [quatTrack b ts
                 [(0, 0, 0), (0.15, 0, 0), (0.15, 0, 0), (0, 0, 0)]])
          @ push_if head (\<lambda>b.
              [quatTrack b ts
                 [(0, 0, 0), (0.15, 0, 0), (0.15, 0, 0), (0, 0, 0)]])
          @ push_if lArm (\<lambda>b.
              [quatTrack b [0, 2.0]
                 [L_UP, L_UP]])
          @ push_if rArm (\<lambda>b.
              [quatTrack b [0, 2.0]
                 [R_UP, R_UP]])
      in clip_or_null ''bow'' 2.0 tracks)"

definition cheer :: "vrm \<Rightarrow> clip option" where
  "cheer v =
     (let lArm = getBone v ''leftUpperArm'';
          rArm = getBone v ''rightUpperArm'';
          lForearm = getBone v ''leftLowerArm'';
          rForearm = getBone v ''rightLowerArm'';
          hips = getBone v ''hips'';
          tracks =
            push_if lArm (\<lambda>b.
              [quatTrack b [0, 0.3, 0.6, 0.9, 1.2, 1.5, 1.8]
                 [L_UP, (0, 0, 1.8), (0, 0, 1.6), (0, 0, 1.8), (0, 0, 1.6), (0, 0, 1.8), L_UP]])
          @ push_if rArm (\<lambda>b.
              [quatTrack b [0, 0.3, 0.6, 0.9, 1.2, 1.5, 1.8]
                 [R_UP, (0, 0, -1.8), (0, 0, -1.6), (0, 0, -1.8), (0, 0, -1.6), (0, 0, -1.8), R_UP]])
          @ push_if lForearm (\<lambda>b.
              [quatTrack b [0, 0.3, 1.5, 1.8]
                 [L_LO, addEuler L_LO (-0.4) 0 0, addEuler L_LO (-0.4) 0 0, L_LO]])
          @ push_if rForearm (\<lambda>b.
              [quatTrack b [0, 0.3, 1.5, 1.8]
                 [R_LO, addEuler R_LO (-0.4) 0 0, addEuler R_LO (-0.4) 0 0, R_LO]])
          @ push_if hips (\<lambda>b.
              [posTrack b [0, 0.3, 0.6, 0.9, 1.2, 1.5, 1.8]
                 [(0, 0, 0), (0, 0.01, 0), (0, 0, 0), (0, 0.01, 0), (0, 0, 0), (0, 0.01, 0), (0, 0, 0)]])
      in clip_or_null ''cheer'' 1.8 tracks)"

definition surprised_back :: "vrm \<Rightarrow> clip option" where
  "surprised_back v =
     (let spine = getBone v ''spine'';
          head = getBone v ''head'';
          hips = getBone v ''hips'';
          lArm = getBone v ''leftUpperArm'';
          rArm = getBone v ''rightUpperArm'';
          tracks =
            push_if spine (\<lambda>b.
              [quatTrack b [0, 0.15, 0.5, 0.8]
                 [(0, 0, 0), (-0.1, 0, 0), (-0.06, 0, 0), (0, 0, 0)]])
          @ push_if head (\<lambda>b.
              [quatTrack b [0, 0.12, 0.5, 0.8]
                 [(0, 0, 0), (-0.15, 0, 0), (-0.08, 0, 0), (0, 0, 0)]])
          @ push_if hips (\<lambda>b.
              [posTrack b [0, 0.15, 0.5, 0.8]
                 [(0, 0, 0), (0, 0.008, -0.02), (0, 0.004, -0.01), (0, 0, 0)]])
          @ push_if lArm (\<lambda>b.
              [quatTrack b [0, 0.15, 0.5, 0.8]
                 [L_UP, addEuler L_UP (-0.2) 0 (-0.55), addEuler L_UP (-0.1) 0 (-0.85), L_UP]])
          @ push_if rArm (\<lambda>b.
              [quatTrack b [0, 0.15, 0.5, 0.8]
                 [R_UP, addEuler R_UP (-0.2) 0 0.55, addEuler R_UP (-0.1) 0 0.85, R_UP]])
      in clip_or_null ''surprised_back'' 0.8 tracks)"

definition happy_jump :: "vrm \<Rightarrow> clip option" where
  "happy_jump v =
     (let hips = getBone v ''hips'';
          lArm = getBone v ''leftUpperArm'';
          rArm = getBone v ''rightUpperArm'';
          head = getBone v ''head'';
          tracks =
            push_if hips (\<lambda>b.
              [posTrack b [0, 0.2, 0.4, 0.6, 0.8, 1.0]
                 [(0, 0, 0), (0, -0.01, 0), (0, 0.025, 0), (0, 0.02, 0), (0, -0.005, 0), (0, 0, 0)]])
          @ push_if lArm (\<lambda>b.
              [quatTrack b [0, 0.2, 0.5, 0.8, 1.0]
                 [L_UP, addEuler L_UP 0 0 (-0.85), (0, 0, 1.6), addEuler L_UP 0 0 (-0.65), L_UP]])
          @ push_if rArm (\<lambda>b.
              [quatTrack b [0, 0.2, 0.5, 0.8, 1.0]
                 [R_UP, addEuler R_UP 0 0 0.85, (0, 0, -1.6), addEuler R_UP 0 0 0.65, R_UP]])
          @ push_if head (\<lambda>b.
              [quatTrack b [0, 0.3, 0.6, 1.0]
                 [(0, 0, 0), (-0.1, 0, 0), (-0.05, 0, 0), (0, 0, 0)]])
      in clip_or_null ''happy_jump'' 1.0 tracks)"

definition sad_cry :: "vrm \<Rightarrow> clip option" where
  "sad_cry v =
     (let head = getBone v ''head'';
          spine = getBone v ''spine'';
          lArm = getBone v ''leftUpperArm'';
          rArm = getBone v ''rightUpperArm'';
          lForearm = getBone v ''leftLowerArm'';
          rForearm = getBone v ''rightLowerArm'';
          tracks =
            push_if head (\<lambda>b.
              [quatTrack b [0, 0.3, 0.8, 1.3, 1.8, 2.5]
                 [(0, 0, 0), (0.2, 0, 0), (0.2, 0.04, 0), (0.2, -0.04, 0), (0.2, 0.02, 0), (0, 0, 0)]])
          @ push_if spine (\<lambda>b.
              [quatTrack b [0, 0.3, 2.0, 2.5]
                 [(0, 0, 0), (0.1, 0, 0), (0.1, 0, 0), (0, 0, 0)]])
          @ push_if lArm (\<lambda>b.
              [quatTrack b [0, 0.3, 2.0, 2.5]
                 [L_UP, addEuler L_UP (-0.5) 0.3 (-0.85), addEuler L_UP (-0.5) 0.3 (-0.85), L_UP]])
          @ push_if rArm (\<lambda>b.
              [quatTrack b [0, 0.3, 2.0, 2.5]
                 [R_UP, addEuler R_UP (-0.5) (-0.3) 0.85, addEuler R_UP (-0.5) (-0.3) 0.85, R_UP]])
          @ push_if lForearm (\<lambda>b.
              [quatTrack b [0, 0.3, 2.0, 2.5]
                 [L_LO, addEuler L_LO (-1.4) 0 0, addEuler L_LO (-1.4) 0 0, L_LO]])
          @ push_if rForearm (\<lambda>b.
              [quatTrack b [0, 0.3, 2.0, 2.5]
                 [R_LO, addEuler R_LO (-1.4) 0 0, addEuler R_LO (-1.4) 0 0, R_LO]])
      in clip_or_null ''sad_cry'' 2.5 tracks)"

definition angry_stomp :: "vrm \<Rightarrow> clip option" where
  "angry_stomp v =
     (let head = getBone v ''head'';
          spine = getBone v ''spine'';
          hips = getBone v ''hips'';
          lArm = getBone v ''leftUpperArm'';
          rArm = getBone v ''rightUpperArm'';
          lForearm = getBone v ''leftLowerArm'';
          rForearm = getBone v ''rightLowerArm'';
          tracks =
            push_if head (\<lambda>b.
              [quatTrack b [0, 0.2, 0.6, 1.0]
                 [(0, 0, 0), (0.08, 0, 0), (0.05, 0, 0), (0, 0, 0)]])
          @ push_if spine (\<lambda>b.
              [quatTrack b [0, 0.2, 0.6, 1.0]
                 [(0, 0, 0), (0.06, 0, 0), (0.03, 0, 0), (0, 0, 0)]])
          @ push_if hips (\<lambda>b.
              [posTrack b [0, 0.15, 0.3, 0.45, 0.6, 1.0]
                 [(0, 0, 0), (0, -0.008, 0), (0, 0, 0), (0, -0.008, 0), (0, 0, 0), (0, 0, 0)]])
          @ push_if lArm (\<lambda>b.
              [quatTrack b [0, 0.2, 0.8, 1.0]
                 [L_UP, addEuler L_UP (-0.3) 0.3 (-0.95), addEuler L_UP (-0.3) 0.3 (-0.95), L_UP]])
          @ push_if rArm (\<lambda>b.
              [quatTrack b [0, 0.2, 0.8, 1.0]
                 [R_UP, addEuler R_UP (-0.3) (-0.3) 0.95, addEuler R_UP (-0.3) (-0.3) 0.95, R_UP]])
          @ push_if lForearm (\<lambda>b.
              [quatTrack b [0, 0.2, 0.8, 1.0]
                 [L_LO, addEuler L_LO (-1.2) 0 0, addEuler L_LO (-1.2) 0 0, L_LO]])
          @ push_if rForearm (\<lambda>b.
              [quatTrack b [0, 0.2, 0.8, 1.0]
                 [R_LO, addEuler R_LO (-1.2) 0 0, addEuler R_LO (-1.2) 0 0, R_LO]])
      in clip_or_null ''angry_stomp'' 1.0 tracks)"

definition dance_happy :: "vrm \<Rightarrow> clip option" where
  "dance_happy v =
     (let dur = 4.0;
          hips = getBone v ''hips'';
          spine = getBone v ''spine'';
          head = getBone v ''head'';
          lArm = getBone v ''leftUpperArm'';
          rArm = getBone v ''rightUpperArm'';
          lForearm = getBone v ''leftLowerArm'';
          rForearm = getBone v ''rightLowerArm'';
          tracks =
            push_if hips (\<lambda>b.
              let t = [0, 0.5, 1.0, 1.5, 2.0, 2.5, 3.0, 3.5, dur] in
              [posTrack b t
                 [(0, 0, 0), (0.008, 0.01, 0), (-0.008, 0, 0), (0.008, 0.01, 0), (-0.008, 0, 0), (0.008, 0.01, 0), (-0.008, 0, 0), (0.008, 0.01, 0), (0, 0, 0)],
               quatTrack b t
                 [(0, 0, 0), (0, 0, 0.03), (0, 0, -0.03), (0, 0, 0.03), (0, 0, -0.03), (0, 0, 0.03), (0, 0, -0.03), (0, 0, 0.03), (0, 0, 0)]])
          @ push_if spine (\<lambda>b.
              [quatTrack b [0, 1.0, 2.0, 3.0, dur]
                 [(0, 0, 0.02), (0, 0, -0.03), (0, 0, 0.03), (0, 0, -0.03), (0, 0, 0.02)]])
          @ push_if head (\<lambda>b.
              let t = [0, 0.5, 1.0, 1.5, 2.0, 2.5, 3.0, 3.5, dur] in
              [quatTrack b t
                 [(0, 0, 0.04), (-0.04, 0, -0.04), (0, 0, 0.04), (-0.04, 0, -0.04), (0, 0, 0.04), (-0.04, 0, -0.04), (0, 0, 0.04), (-0.04, 0, -0.04), (0, 0, 0.04)]])
          @ push_if lArm (\<lambda>b.
              [quatTrack b [0, 0.5, 1.0, 1.5, 2.0, 2.5, 3.0, 3.5, dur]
                 [addEuler L_UP 0 0 (-0.85), (-0.2, 0, 1.0), addEuler L_UP 0 0 (-0.85), (-0.2, 0, 1.0), addEuler L_UP 0 0 (-0.85), (-0.2, 0, 1.0), addEuler L_UP 0 0 (-0.85), (-0.2, 0, 1.0), addEuler L_UP 0 0 (-0.85)]])
          @ push_if rArm (\<lambda>b.
              [quatTrack b [0, 0.5, 1.0, 1.5, 2.0, 2.5, 3.0, 3.5, dur]
                 [(-0.2, 0, -1.0), addEuler R_UP 0 0 0.85, (-0.2, 0, -1.0), addEuler R_UP 0 0 0.85, (-0.2, 0, -1.0), addEuler R_UP 0 0 0.85, (-0.2, 0, -1.0), addEuler R_UP 0 0 0.85, (-0.2, 0, -1.0)]])
          @ push_if lForearm (\<lambda>b.
              [quatTrack b [0, dur]
                 [addEuler L_LO (-0.6) 0 0, addEuler L_LO (-0.6) 0 0]])
          @ push_if rForearm (\<lambda>b.
              [quatTrack b [0, dur]
                 [addEuler R_LO (-0.6) 0 0, addEuler R_LO (-0.6) 0 0]])
      in clip_or_null ''dance_happy'' dur tracks)"

definition dance_hiphop :: "vrm \<Rightarrow> clip option" where
  "dance_hiphop v =
     (let clip = dance_happy v
      in case clip of None \<Rightarrow> None | Some c \<Rightarrow> Some (c\<lparr>clip_name := ''dance_hiphop''\<rparr>))"

definition sleeping :: "vrm \<Rightarrow> clip option" where
  "sleeping v =
     (let dur = 6.0;
          head = getBone v ''head'';
          spine = getBone v ''spine'';
          chest = getBone v ''chest'';
          lArm = getBone v ''leftUpperArm'';
          rArm = getBone v ''rightUpperArm'';
          tracks =
            push_if head (\<lambda>b.
              [quatTrack b [0, 2, 4, dur]
                 [(0.15, -0.05, 0), (0.18, 0.03, 0.02), (0.15, -0.03, -0.02), (0.15, -0.05, 0)]])
          @ push_if spine (\<lambda>b.
              [quatTrack b [0, 3, dur]
                 [(0.08, 0, 0), (0.09, 0, 0), (0.08, 0, 0)]])
          @ push_if chest (\<lambda>b.
              [quatTrack b [0, 3, dur]
                 [(0.04, 0, 0), (0.06, 0, 0), (0.04, 0, 0)]])
          @ push_if lArm (\<lambda>b.
              [quatTrack b [0, dur]
                 [L_UP, L_UP]])
          @ push_if rArm (\<lambda>b.
              [quatTrack b [0, dur]
                 [R_UP, R_UP]])
      in clip_or_null ''sleeping'' dur tracks)"

definition sitting :: "vrm \<Rightarrow> clip option" where
  "sitting v =
     (let dur = 4.0;
          head = getBone v ''head'';
          spine = getBone v ''spine'';
          hips = getBone v ''hips'';
          lArm = getBone v ''leftUpperArm'';
          rArm = getBone v ''rightUpperArm'';
          tracks =
            push_if hips (\<lambda>b.
              [posTrack b [0, dur]
                 [(0, -0.15, 0.02), (0, -0.15, 0.02)]])
          @ push_if spine (\<lambda>b.
              [quatTrack b [0, 2, dur]
                 [(-0.05, 0, 0), (-0.04, 0, 0), (-0.05, 0, 0)]])
          @ push_if head (\<lambda>b.
              [quatTrack b [0, 1.5, 3.0, dur]
                 [(0.02, 0.02, 0), (0, -0.02, 0), (0.02, 0.01, 0), (0.02, 0.02, 0)]])
          @ push_if lArm (\<lambda>b.
              [quatTrack b [0, dur]
                 [L_UP, L_UP]])
          @ push_if rArm (\<lambda>b.
              [quatTrack b [0, dur]
                 [R_UP, R_UP]])
      in clip_or_null ''sitting'' dur tracks)"

text \<open>
  The registry of generators, keyed by motion id, in the order of the source (lookup is by
  the registry's own keys).
\<close>

definition PROCEDURAL_CLIPS :: "(string \<times> (vrm \<Rightarrow> clip option)) list" where
  "PROCEDURAL_CLIPS =
     [(''idle_breathe'', idle_breathe),
      (''idle_happy'', idle_happy),
      (''idle_sad'', idle_sad),
      (''nod'', nod),
      (''shake'', shake),
      (''thinking'', thinking),
      (''point'', point),
      (''shrug'', shrug),
      (''wave'', wave),
      (''clap'', clap),
      (''bow'', bow),
      (''cheer'', cheer),
      (''surprised_back'', surprised_back),
      (''happy_jump'', happy_jump),
      (''sad_cry'', sad_cry),
      (''angry_stomp'', angry_stomp),
      (''dance_happy'', dance_happy),
      (''dance_hiphop'', dance_hiphop),
      (''sleeping'', sleeping),
      (''sitting'', sitting)]"

definition createProceduralClip :: "vrm \<Rightarrow> string \<Rightarrow> clip option" where
  "createProceduralClip v motionId =
     (case map_of PROCEDURAL_CLIPS motionId of None \<Rightarrow> None | Some fn \<Rightarrow> fn v)"

definition getProceduralMotionIds :: "string list" where
  "getProceduralMotionIds = map fst PROCEDURAL_CLIPS"

section \<open>Retargeting of foreign-rig animations\<close>

text \<open>
  The loaded asset: its animation clips and its scene objects by name. Of a scene object
  the retargeting reads the rest world rotation, the rest world rotation of the parent
  (if there is a parent) and the height.
\<close>

record rig_node =
  worldQuaternion :: quat
  parentWorldQuaternion :: "quat option"
  position_y :: real

record fbx_asset =
  animations :: "clip list"
  getObjectByName :: "string \<Rightarrow> rig_node option"

datatype load_error = Load_Error string

definition MIXAMO_VRM_RIG_MAP :: "(string \<times> string) list" where
  "MIXAMO_VRM_RIG_MAP =
     [(''mixamorigHips'', ''hips''),
      (''mixamorigSpine'', ''spine''),
      (''mixamorigSpine1'', ''chest''),
      (''mixamorigSpine2'', ''upperChest''),
      (''mixamorigNeck'', ''neck''),
      (''mixamorigHead'', ''head''),
      (''mixamorigLeftShoulder'', ''leftShoulder''),
      (''mixamorigLeftArm'', ''leftUpperArm''),
      (''mixamorigLeftForeArm'', ''leftLowerArm''),
      (''mixamorigLeftHand'', ''leftHand''),
      (''mixamorigLeftHandThumb1'', ''leftThumbMetacarpal''),
      (''mixamorigLeftHandThumb2'', ''leftThumbProximal''),
      (''mixamorigLeftHandThumb3'', ''leftThumbDistal''),
      (''mixamorigLeftHandIndex1'', ''leftIndexProximal''),
      (''mixamorigLeftHandIndex2'', ''leftIndexIntermediate''),
      (''mixamorigLeftHandIndex3'', ''leftIndexDistal''),
      (''mixamorigLeftHandMiddle1'', ''leftMiddleProximal''),
      (''mixamorigLeftHandMiddle2'', ''leftMiddleIntermediate''),
      (''mixamorigLeftHandMiddle3'', ''leftMiddleDistal''),
      (''mixamorigLeftHandRing1'', ''leftRingProximal''),
      (''mixamorigLeftHandRing2'', ''leftRingIntermediate''),
      (''mixamorigLeftHandRing3'', ''leftRingDistal''),
      (''mixamorigLeftHandPinky1'', ''leftLittleProximal''),
      (''mixamorigLeftHandPinky2'', ''leftLittleIntermediate''),
      (''mixamorigLeftHandPinky3'', ''leftLittleDistal''),
      (''mixamorigRightShoulder'', ''rightShoulder''),
      (''mixamorigRightArm'', ''rightUpperArm''),
      (''mixamorigRightForeArm'', ''rightLowerArm''),
      (''mixamorigRightHand'', ''rightHand''),
      (''mixamorigRightHandThumb1'', ''rightThumbMetacarpal''),
      (''mixamorigRightHandThumb2'', ''rightThumbProximal''),
      (''mixamorigRightHandThumb3'', ''rightThumbDistal''),
      (''mixamorigRightHandIndex1'', ''rightIndexProximal''),
      (''mixamorigRightHandIndex2'', ''rightIndexIntermediate''),
      (''mixamorigRightHandIndex3'', ''rightIndexDistal''),
      (''mixamorigRightHandMiddle1'', ''rightMiddleProximal''),
      (''mixamorigRightHandMiddle2'', ''rightMiddleIntermediate''),
      (''mixamorigRightHandMiddle3'', ''rightMiddleDistal''),
      (''mixamorigRightHandRing1'', ''rightRingProximal''),
      (''mixamorigRightHandRing2'', ''rightRingIntermediate''),
      (''mixamorigRightHandRing3'', ''rightRingDistal''),
      (''mixamorigRightHandPinky1'', ''rightLittleProximal''),
      (''mixamorigRightHandPinky2'', ''rightLittleIntermediate''),
      (''mixamorigRightHandPinky3'', ''rightLittleDistal''),
      (''mixamorigLeftUpLeg'', ''leftUpperLeg''),
      (''mixamorigLeftLeg'', ''leftLowerLeg''),
      (''mixamorigLeftFoot'', ''leftFoot''),
      (''mixamorigLeftToeBase'', ''leftToes''),
      (''mixamorigRightUpLeg'', ''rightUpperLeg''),
      (''mixamorigRightLeg'', ''rightLowerLeg''),
      (''mixamorigRightFoot'', ''rightFoot''),
      (''mixamorigRightToeBase'', ''rightToes'')]"

text \<open>\<open>s.split('.')\<close>: the pieces of a string between the dots.\<close>

fun split_dot :: "string \<Rightarrow> string list" where
  "split_dot [] = [[]]"
| "split_dot (c # cs) =
     (if c = CHR ''.'' then [] # split_dot cs
      else (case split_dot cs of [] \<Rightarrow> [[c]] | p # ps \<Rightarrow> (c # p) # ps))"

text \<open>
  \<open>const [mixamoRigName, propertyName] = track.name.split('.')\<close>; a missing second piece
  is \<open>undefined\<close>, which the template string of the new track name prints as such.
\<close>

definition rig_and_property :: "string \<Rightarrow> string \<times> string" where
  "rig_and_property n =
     (case split_dot n of
        [] \<Rightarrow> (''undefined'', ''undefined'')
      | [a] \<Rightarrow> (a, ''undefined'')
      | a # b # rest \<Rightarrow> (a, b))"

definition ARM_SPREAD_BIAS_RAD :: "real \<Rightarrow> real" where
  "ARM_SPREAD_BIAS_RAD armSpreadBiasDeg = (armSpreadBiasDeg * pi) / 180"

definition armBiasQuats :: "real \<Rightarrow> string \<Rightarrow> quat option" where
  "armBiasQuats armSpreadBiasDeg =
     (if \<bar>ARM_SPREAD_BIAS_RAD armSpreadBiasDeg\<bar> > 0.001
      then [''leftUpperArm'' \<mapsto> setFromEuler (0, 0, - ARM_SPREAD_BIAS_RAD armSpreadBiasDeg),
            ''rightUpperArm'' \<mapsto> setFromEuler (0, 0, ARM_SPREAD_BIAS_RAD armSpreadBiasDeg)]
      else Map.empty)"

definition hipsPositionScale :: "fbx_asset \<Rightarrow> vrm \<Rightarrow> real" where
  "hipsPositionScale asset v =
     (let motionHipsHeight =
            (case getObjectByName asset ''mixamorigHips'' of
               Some motionHipsNode \<Rightarrow> position_y motionHipsNode | None \<Rightarrow> 1);
          vrmHipsY =
            (case getNormalizedBoneNode v ''hips'' of
               Some n \<Rightarrow> (case hipsRestY v of Some y \<Rightarrow> y | None \<Rightarrow> 1)
             | None \<Rightarrow> 1)
      in vrmHipsY / motionHipsHeight)"

definition isVRM0 :: "vrm \<Rightarrow> bool" where
  "isVRM0 v = (metaVersion v = Some ''0'')"

text \<open>The body of the loop over the values of a rotation track, for one keyframe.\<close>

definition retarget_quaternion :: "bool \<Rightarrow> quat option \<Rightarrow> quat \<Rightarrow> quat \<Rightarrow> quat \<Rightarrow> quat" where
  "retarget_quaternion vrm0 biasQ parentRestWorldRotation restRotationInverse value =
     (let quatA = multiply (premultiply value parentRestWorldRotation) restRotationInverse;
          quatA = (if vrm0 then Quat (- qx quatA) (qy quatA) (- qz quatA) (qw quatA) else quatA)
      in case biasQ of Some b \<Rightarrow> premultiply quatA b | None \<Rightarrow> quatA)"

definition retarget_position :: "bool \<Rightarrow> real \<Rightarrow> vec3 \<Rightarrow> vec3" where
  "retarget_position vrm0 scale value =
     (case value of (x, y, z) \<Rightarrow>
        if vrm0 then (- x * scale, y * scale, - z * scale)
        else (x * scale, y * scale, z * scale))"

text \<open>
  The body of the loop over the source tracks: the tracks it pushes (none where the source
  says \<open>continue\<close>, and none for a track that is neither a rotation nor a vector track).
\<close>

definition retarget_track :: "fbx_asset \<Rightarrow> vrm \<Rightarrow> real \<Rightarrow> track \<Rightarrow> track list" where
  "retarget_track asset v armSpreadBiasDeg tr =
     (case rig_and_property (track_name tr) of (mixamoRigName, propertyName) \<Rightarrow>
      case map_of MIXAMO_VRM_RIG_MAP mixamoRigName of None \<Rightarrow> []
      | Some vrmBoneName \<Rightarrow>
      case getNormalizedBoneNode v vrmBoneName of None \<Rightarrow> []
      | Some vrmNode \<Rightarrow>
      case getObjectByName asset mixamoRigName of None \<Rightarrow> []
      | Some mixamoRigNode \<Rightarrow>
        let vrmNodeName = name vrmNode;
            restRotationInverse = invert (worldQuaternion mixamoRigNode);
            parentRestWorldRotation =
              (case parentWorldQuaternion mixamoRigNode of Some p \<Rightarrow> p | None \<Rightarrow> quat_identity)
        in case tr of
             QuaternionKeyframeTrack n ts vals \<Rightarrow>
               [QuaternionKeyframeTrack (vrmNodeName @ ''.'' @ propertyName) ts
                  (map (retarget_quaternion (isVRM0 v) (armBiasQuats armSpreadBiasDeg vrmBoneName)
                          parentRestWorldRotation restRotationInverse) vals)]
           | VectorKeyframeTrack n ts vals \<Rightarrow>
               [VectorKeyframeTrack (vrmNodeName @ ''.'' @ propertyName) ts
                  (map (retarget_position (isVRM0 v) (hipsPositionScale asset v)) vals)]
           | NumberKeyframeTrack n ts vals \<Rightarrow> [])"

text \<open>
  \<open>loadMixamoAnimation\<close>; the loader's result for the URL is the argument \<open>loadAsync\<close>,
  an error where the fetch or the parse throws.
\<close>

definition loadMixamoAnimation ::
  "(string \<Rightarrow> load_error + fbx_asset) \<Rightarrow> string \<Rightarrow> vrm \<Rightarrow> string option \<Rightarrow> real \<Rightarrow> load_error + clip"
where
  "loadMixamoAnimation loadAsync url v clipName armSpreadBiasDeg =
     (case loadAsync url of Inl e \<Rightarrow> Inl e
      | Inr asset \<Rightarrow>
        (case (case find (\<lambda>c. clip_name c = ''mixamo.com'') (animations asset) of
                 Some c \<Rightarrow> Some c
               | None \<Rightarrow> (case animations asset of [] \<Rightarrow> None | c # cs \<Rightarrow> Some c)) of
           None \<Rightarrow> Inl (Load_Error (''No animation clip found in FBX: '' @ url))
         | Some sourceClip \<Rightarrow>
             Inr \<lparr>clip_name = (case clipName of Some n \<Rightarrow> n | None \<Rightarrow> clip_name sourceClip),
                  duration = duration sourceClip,
                  tracks = concat (map (retarget_track asset v armSpreadBiasDeg)
                                       (tracks sourceClip))\<rparr>))"

section \<open>Playback and crossfade scheduler\<close>

subsection \<open>Motion definitions and the environment\<close>

datatype MotionCategory = idle | emotion | gesture | dance | special | exercise

datatype PlayMode = loop | once

datatype Format = vrma | fbx

record MotionDef =
  motion_id :: string
  label :: string
  category :: MotionCategory
  playMode :: PlayMode
  url :: string
  format :: Format
  fadeDuration :: real
  moodTags :: "string list"
  altGroup :: string
  keyword_list :: "string list"

text \<open>
  What the manager reads from outside: the loaded motion library (the module variable
  \<open>_motionLibrary\<close>) and the results of the two asset loaders for a URL. For a VRMA file
  the result lists the clips of its animations, as bound to the avatar by the animation
  library.
\<close>

record env =
  motionLibrary :: "MotionDef list"
  gltf_loadAsync :: "string \<Rightarrow> load_error + clip list"
  fbx_loadAsync :: "string \<Rightarrow> load_error + fbx_asset"

subsection \<open>Motion history\<close>

definition MAX_HISTORY :: nat where
  "MAX_HISTORY = 10"

definition MAX_SAME_MOTION_USES :: nat where
  "MAX_SAME_MOTION_USES = 2"

record MotionHistory =
  history :: "string list"
  altGroupUsage :: "string \<Rightarrow> string list option"

definition history_clear :: MotionHistory where
  "history_clear = \<lparr>history = [], altGroupUsage = Map.empty\<rparr>"

definition record_motion :: "MotionHistory \<Rightarrow> string \<Rightarrow> string \<Rightarrow> MotionHistory" where
  "record_motion h motionId grp =
     (let hist = history h @ [motionId];
          hist = (if length hist > MAX_HISTORY then tl hist else hist);
          groupList = (case altGroupUsage h grp of Some l \<Rightarrow> l | None \<Rightarrow> []) @ [motionId];
          groupList = (if length groupList > 10 then tl groupList else groupList)
      in \<lparr>history = hist, altGroupUsage = (altGroupUsage h)(grp \<mapsto> groupList)\<rparr>)"

definition recentCount :: "MotionHistory \<Rightarrow> string \<Rightarrow> nat" where
  "recentCount h motionId = length (filter (\<lambda>i. i = motionId) (history h))"

text \<open>
  The weight of a candidate. A preferred group counts as supplied when it is a non-empty
  string (\<open>preferAltGroup && ...\<close>).
\<close>

definition rotation_weight :: "MotionHistory \<Rightarrow> string option \<Rightarrow> MotionDef \<Rightarrow> real" where
  "rotation_weight h preferAltGroup m =
     (let count = recentCount h (motion_id m);
          w = max 1 (real MAX_SAME_MOTION_USES + 1 - real count)
      in if (case preferAltGroup of Some g \<Rightarrow> g \<noteq> [] \<and> altGroup m = g | None \<Rightarrow> False)
         then w * 1.5 else w)"

text \<open>
  The loop of the weighted draw: \<open>r -= weights[i]; if (r <= 0) return pool[i]\<close>; it
  returns nothing when it runs off the end of the pool.
\<close>

fun draw_loop :: "'a list \<Rightarrow> real list \<Rightarrow> real \<Rightarrow> 'a option" where
  "draw_loop (m # ms) (w # ws) r =
     (let r = r - w in if r \<le> 0 then Some m else draw_loop ms ws r)"
| "draw_loop ms ws r = None"

definition rotation_pool :: "MotionHistory \<Rightarrow> MotionDef list \<Rightarrow> MotionDef list" where
  "rotation_pool h candidates =
     (let eligible = filter (\<lambda>m. recentCount h (motion_id m) < MAX_SAME_MOTION_USES) candidates
      in if length eligible > 0 then eligible else candidates)"

text \<open>\<open>pickWithRotation\<close>; \<open>rnd\<close> is the value of \<open>Math.random()\<close>.\<close>

definition pickWithRotation ::
  "MotionHistory \<Rightarrow> MotionDef list \<Rightarrow> string option \<Rightarrow> real \<Rightarrow> MotionDef option" where
  "pickWithRotation h candidates preferAltGroup rnd =
     (if length candidates = 0 then None
      else
        let pool = rotation_pool h candidates;
            weights = map (rotation_weight h preferAltGroup) pool;
            totalWeight = foldl (+) 0 weights;
            r = rnd * totalWeight
        in case draw_loop pool weights r of
             Some m \<Rightarrow> Some m
           | None \<Rightarrow> Some (last pool))"




subsection \<open>Animation actions\<close>

text \<open>
  The part of a \<open>THREE.AnimationAction\<close> that the manager sets: its weight, time scale,
  flags, loop mode and the scheduled fade, and whether \<open>play()\<close> has activated it. The
  mixer keeps one action per clip. Time-scale warping of a crossfade is not modelled.
\<close>

datatype fade = FadeIn real | FadeOut real

datatype loop_mode = LoopOnce | LoopRepeat

record action =
  weight :: real
  timeScale :: real
  enabled :: bool
  paused :: bool
  loopMode :: loop_mode
  clampWhenFinished :: bool
  fading :: "fade option"
  active :: bool

type_synonym mixer = "clip \<Rightarrow> action option"

definition new_action :: action where
  "new_action = \<lparr>weight = 1, timeScale = 1, enabled = True, paused = False,
                  loopMode = LoopRepeat, clampWhenFinished = False, fading = None,
                  active = False\<rparr>"

definition clipAction :: "mixer \<Rightarrow> clip \<Rightarrow> action" where
  "clipAction mx c = (case mx c of Some a \<Rightarrow> a | None \<Rightarrow> new_action)"

definition on_action :: "mixer \<Rightarrow> clip \<Rightarrow> (action \<Rightarrow> action) \<Rightarrow> mixer" where
  "on_action mx c f = mx(c \<mapsto> f (clipAction mx c))"

definition reset :: "action \<Rightarrow> action" where
  "reset a = a\<lparr>paused := False, enabled := True, fading := None\<rparr>"

definition setEffectiveTimeScale :: "real \<Rightarrow> action \<Rightarrow> action" where
  "setEffectiveTimeScale sc a = a\<lparr>timeScale := sc\<rparr>"

definition setEffectiveWeight :: "real \<Rightarrow> action \<Rightarrow> action" where
  "setEffectiveWeight w a = a\<lparr>weight := w, fading := None\<rparr>"

definition getEffectiveWeight :: "action \<Rightarrow> real" where
  "getEffectiveWeight a = (if enabled a then weight a else 0)"

definition fadeIn :: "real \<Rightarrow> action \<Rightarrow> action" where
  "fadeIn d a = a\<lparr>fading := Some (FadeIn d)\<rparr>"

definition fadeOut :: "real \<Rightarrow> action \<Rightarrow> action" where
  "fadeOut d a = a\<lparr>fading := Some (FadeOut d)\<rparr>"

definition play :: "action \<Rightarrow> action" where
  "play a = a\<lparr>active := True\<rparr>"

definition setLoop :: "loop_mode \<Rightarrow> action \<Rightarrow> action" where
  "setLoop m a = a\<lparr>loopMode := m\<rparr>"

definition isRunning :: "action \<Rightarrow> bool" where
  "isRunning a = (enabled a \<and> \<not> paused a \<and> timeScale a \<noteq> 0 \<and> active a)"

definition crossFadeTo :: "mixer \<Rightarrow> clip \<Rightarrow> clip \<Rightarrow> real \<Rightarrow> mixer" where
  "crossFadeTo mx this fadeInAction d =
     on_action (on_action mx this (fadeOut d)) fadeInAction (fadeIn d)"

subsection \<open>The animation manager\<close>

text \<open>
  The fields of \<open>AnimationManager\<close>. An action is referred to by the clip it plays, since
  the mixer keeps one action per clip.
\<close>

record manager =
  m_vrm :: "vrm option"
  m_mixer :: "mixer option"
  clipCache :: "string \<Rightarrow> clip option"
  activeLoopAction :: "clip option"
  activeLoopMotionId :: "string option"
  activeShotAction :: "clip option"
  fallbackIdleAction :: "clip option"
  defaultFade :: real
  motionHistory :: MotionHistory
  idleSeconds :: real
  hobbyIdleThreshold :: real
  hobbyPlaying :: bool
  hobbyKeywords :: "string list"
  currentEmotion :: string
  armSpreadBiasDeg :: real

definition new_manager :: manager where
  "new_manager =
     \<lparr>m_vrm = None, m_mixer = None, clipCache = Map.empty,
      activeLoopAction = None, activeLoopMotionId = None,
      activeShotAction = None, fallbackIdleAction = None, defaultFade = 0.5,
      motionHistory = history_clear,
      idleSeconds = 0, hobbyIdleThreshold = 600, hobbyPlaying = False,
      hobbyKeywords = [], currentEmotion = ''neutral'', armSpreadBiasDeg = 20\<rparr>"

definition dispose :: "manager \<Rightarrow> manager" where
  "dispose s =
     s\<lparr>m_mixer := None, m_vrm := None, clipCache := Map.empty,
       activeLoopAction := None, activeLoopMotionId := None,
       activeShotAction := None, fallbackIdleAction := None,
       motionHistory := history_clear\<rparr>"

definition loadVRMA :: "env \<Rightarrow> manager \<Rightarrow> string \<Rightarrow> string \<Rightarrow> load_error + clip" where
  "loadVRMA e s u n =
     (case m_vrm s of None \<Rightarrow> Inl (Load_Error ''No VRM bound'')
      | Some v \<Rightarrow>
        (case gltf_loadAsync e u of Inl err \<Rightarrow> Inl err
         | Inr vrmAnimations \<Rightarrow>
           (case vrmAnimations of
              [] \<Rightarrow> Inl (Load_Error (''No VRM animations found in: '' @ u))
            | c # cs \<Rightarrow> Inr (c\<lparr>clip_name := n\<rparr>))))"

text \<open>
  \<open>loadMotion\<close>: the cached clip, else the authored asset, else (also when loading the
  asset throws, which the \<open>try\<close> block catches) the procedural clip, else \<open>null\<close>.
\<close>

definition loadMotion :: "env \<Rightarrow> manager \<Rightarrow> string \<Rightarrow> clip option \<times> manager" where
  "loadMotion e s motionId =
     (case m_vrm s of None \<Rightarrow> (None, s)
      | Some v \<Rightarrow>
      case m_mixer s of None \<Rightarrow> (None, s)
      | Some mx \<Rightarrow>
      case clipCache s motionId of Some c \<Rightarrow> (Some c, s)
      | None \<Rightarrow>
        let def = find (\<lambda>m. motion_id m = motionId) (motionLibrary e);
            loaded =
              (case def of None \<Rightarrow> None
               | Some d \<Rightarrow>
                 (case (if format d = vrma then loadVRMA e s (url d) motionId
                        else loadMixamoAnimation (fbx_loadAsync e) (url d) v (Some motionId)
                               (armSpreadBiasDeg s)) of
                    Inr c \<Rightarrow> Some c
                  | Inl err \<Rightarrow> None))
        in case loaded of
             Some c \<Rightarrow> (Some c, s\<lparr>clipCache := (clipCache s)(motionId \<mapsto> c)\<rparr>)
           | None \<Rightarrow>
             (case createProceduralClip v motionId of
                Some proceduralClip \<Rightarrow>
                  (Some proceduralClip, s\<lparr>clipCache := (clipCache s)(motionId \<mapsto> proceduralClip)\<rparr>)
              | None \<Rightarrow> (None, s)))"

definition playLoop :: "manager \<Rightarrow> clip \<Rightarrow> string \<Rightarrow> real \<Rightarrow> manager" where
  "playLoop s c motionId fadeDur =
     (case m_mixer s of None \<Rightarrow> s
      | Some mx \<Rightarrow>
        if activeLoopMotionId s = Some motionId
           \<and> (case activeLoopAction s of Some a \<Rightarrow> isRunning (clipAction mx a) | None \<Rightarrow> False)
        then s
        else
          let newAction = c;
              mx = on_action mx newAction (\<lambda>a. (setLoop LoopRepeat a)\<lparr>clampWhenFinished := False\<rparr>);
              mx = (case activeLoopAction s of
                      Some old \<Rightarrow>
                        if old \<noteq> newAction
                        then
                          let mx = on_action mx newAction
                                     (\<lambda>a. setEffectiveWeight 1 (setEffectiveTimeScale 1 (reset a)));
                              mx = crossFadeTo mx old newAction fadeDur
                          in on_action mx newAction play
                        else on_action mx newAction (\<lambda>a. play (fadeIn fadeDur (reset a)))
                    | None \<Rightarrow> on_action mx newAction (\<lambda>a. play (fadeIn fadeDur (reset a))))
          in s\<lparr>m_mixer := Some mx, activeLoopAction := Some newAction,
                activeLoopMotionId := Some motionId\<rparr>)"

definition playOneShot :: "manager \<Rightarrow> clip \<Rightarrow> real \<Rightarrow> manager" where
  "playOneShot s c fadeDur =
     (case m_mixer s of None \<Rightarrow> s
      | Some mx \<Rightarrow>
        let mx = (case activeShotAction s of
                    Some prev \<Rightarrow> on_action mx prev (fadeOut (fadeDur * 0.5))
                  | None \<Rightarrow> mx);
            act = c;
            mx = on_action mx act (\<lambda>a. (setLoop LoopOnce a)\<lparr>clampWhenFinished := True\<rparr>);
            mx = on_action mx act (\<lambda>a. setEffectiveWeight 1 (setEffectiveTimeScale 1 (reset a)));
            mx = (case activeLoopAction s of
                    Some l \<Rightarrow> on_action mx l (setEffectiveWeight 0.2)
                  | None \<Rightarrow> mx);
            mx = on_action mx act (\<lambda>a. play (fadeIn fadeDur a))
        in s\<lparr>m_mixer := Some mx, activeShotAction := Some act\<rparr>)"


definition resetToIdle :: "manager \<Rightarrow> manager" where
  "resetToIdle s =
     (case m_mixer s of None \<Rightarrow> s
      | Some mx \<Rightarrow>
        let mx = (case activeLoopAction s of Some l \<Rightarrow> on_action mx l (fadeOut 0.5) | None \<Rightarrow> mx);
            mx = (case activeShotAction s of Some a \<Rightarrow> on_action mx a (fadeOut 0.3) | None \<Rightarrow> mx);
            s = s\<lparr>m_mixer := Some mx, activeLoopAction := None, activeLoopMotionId := None,
                  activeShotAction := None\<rparr>
        in case fallbackIdleAction s of
             Some f \<Rightarrow>
               s\<lparr>m_mixer := Some (on_action mx f (\<lambda>a. play (fadeIn 0.5 (reset a)))),
                 activeLoopAction := Some f,
                 activeLoopMotionId := Some ''__fallback_idle''\<rparr>
           | None \<Rightarrow> s)"

text \<open>
  \<open>playMotion\<close> returns nothing; a value \<open>Inl\<close> stands for an exception leaving it. Loading
  errors are caught inside \<open>loadMotion\<close>, so no branch of \<open>playMotion\<close> produces one.
\<close>

definition playMotion :: "env \<Rightarrow> manager \<Rightarrow> string \<Rightarrow> load_error + manager" where
  "playMotion e s motionId =
     (case m_mixer s of None \<Rightarrow> Inr s
      | Some mx \<Rightarrow>
        let def = find (\<lambda>m. motion_id m = motionId) (motionLibrary e);
            fadeDur = (case def of Some d \<Rightarrow> fadeDuration d | None \<Rightarrow> defaultFade s);
            mode = (case def of Some d \<Rightarrow> playMode d | None \<Rightarrow> once)
        in case loadMotion e s motionId of
             (None, s) \<Rightarrow> Inr s
           | (Some c, s) \<Rightarrow>
               let s = (case def of
                          Some d \<Rightarrow> s\<lparr>motionHistory := record_motion (motionHistory s) motionId (altGroup d)\<rparr>
                        | None \<Rightarrow> s)
               in if mode = loop then Inr (playLoop s c motionId fadeDur)
                  else Inr (playOneShot s c fadeDur))"

text \<open>\<open>playMotionWithFallback\<close>: \<open>try { await this.playMotion(id); return true } catch { return false }\<close>\<close>

definition playMotionWithFallback :: "env \<Rightarrow> manager \<Rightarrow> string \<Rightarrow> bool \<times> manager" where
  "playMotionWithFallback e s motionId =
     (case m_mixer s of None \<Rightarrow> (False, s)
      | Some mx \<Rightarrow>
        (case playMotion e s motionId of
           Inr s' \<Rightarrow> (True, s')
         | Inl err \<Rightarrow> (False, s)))"




text \<open>\<open>createFallbackIdle\<close> and \<open>bind\<close> (the library is loaded into the environment).\<close>

definition createFallbackIdle :: "manager \<Rightarrow> manager" where
  "createFallbackIdle s =
     (case m_vrm s of None \<Rightarrow> s
      | Some v \<Rightarrow>
      case m_mixer s of None \<Rightarrow> s
      | Some mx \<Rightarrow>
        let hips = getNormalizedBoneNode v ''hips'';
            spine = getNormalizedBoneNode v ''spine'';
            chest = getNormalizedBoneNode v ''chest'';
            head = getNormalizedBoneNode v ''head'';
            leftArm = getNormalizedBoneNode v ''leftUpperArm'';
            rightArm = getNormalizedBoneNode v ''rightUpperArm'';
            dur = 4.0;
            times4 = [0, 1.5, 3, dur];
            times3 = [0, 2, dur];
            tracks =
              push_if spine (\<lambda>b. case position b of (x, y, z) \<Rightarrow>
                [VectorKeyframeTrack (name b @ ''.position'') times4
                   [(x, y, z), (x, y + 0.003, z), (x, y + 0.001, z), (x, y, z)]])
            @ push_if chest (\<lambda>b.
                [QuaternionKeyframeTrack (name b @ ''.quaternion'') times4
                   (map (\<lambda>pitch. setFromEuler (pitch, 0, 0)) [0, 0.012, 0.004, 0])])
            @ push_if head (\<lambda>b.
                [QuaternionKeyframeTrack (name b @ ''.quaternion'') [0, 1.5, 2.5, 3.5, dur]
                   (map (\<lambda>(pitch, yaw). setFromEuler (pitch, yaw, 0))
                      [(0.02, 0.01), (-0.01, -0.015), (0.01, 0.02), (-0.015, -0.01), (0.02, 0.01)])])
            @ push_if hips (\<lambda>b. case position b of (x, y, z) \<Rightarrow>
                [VectorKeyframeTrack (name b @ ''.position'') times3
                   [(x, y, z), (x + 0.002, y, z), (x, y, z)]])
            @ push_if leftArm (\<lambda>b.
                [QuaternionKeyframeTrack (name b @ ''.quaternion'') times4
                   (map (\<lambda>dz. case L_UP of (rx, ry, rz) \<Rightarrow> setFromEuler (rx, ry, rz + dz))
                      [0, 0.015, -0.01, 0])])
            @ push_if rightArm (\<lambda>b.
                [QuaternionKeyframeTrack (name b @ ''.quaternion'') times4
                   (map (\<lambda>dz. case R_UP of (rx, ry, rz) \<Rightarrow> setFromEuler (rx, ry, rz + dz))
                      [0, -0.015, 0.01, 0])])
        in if length tracks = 0 then s
           else
             let c = \<lparr>clip_name = ''fallback_idle'', duration = dur, tracks = tracks\<rparr>;
                 mx = on_action mx c (\<lambda>a. play (setLoop LoopRepeat a))
             in s\<lparr>m_mixer := Some mx, fallbackIdleAction := Some c,
                   activeLoopAction := Some c, activeLoopMotionId := Some ''__fallback_idle''\<rparr>)"

definition bind :: "manager \<Rightarrow> vrm \<Rightarrow> manager" where
  "bind s v =
     (let s = dispose s;
          s = s\<lparr>m_vrm := Some v, m_mixer := Some Map.empty, clipCache := Map.empty,
                motionHistory := history_clear\<rparr>
      in createFallbackIdle s)"

section \<open>Blink controller\<close>

datatype blink_phase = Waiting | Closing | Closed | Opening

record blink_state =
  blinkPhase :: blink_phase
  blinkTimer :: real
  blinkT :: real
  blinkCloseTime :: real
  blinkHoldTime :: real
  blinkOpenTime :: real

text \<open>
  The values of the calls of \<open>Math.random()\<close> that one update can make, one field per call
  site: the three durations drawn when a blink starts, the three draws of
  \<open>nextBlinkInterval\<close> (base, chance of a stare, its extension) and the two of the
  double blink (chance, countdown).
\<close>

record blink_draws =
  rndClose :: real
  rndHold :: real
  rndOpen :: real
  rndBase :: real
  rndStare :: real
  rndStareExtra :: real
  rndDouble :: real
  rndDoubleTimer :: real

definition easeInQuad :: "real \<Rightarrow> real" where
  "easeInQuad t = t * t"

definition easeOutQuad :: "real \<Rightarrow> real" where
  "easeOutQuad t = t * (2 - t)"

definition nextBlinkInterval :: "blink_draws \<Rightarrow> real" where
  "nextBlinkInterval d =
     (let base = 2.5 + rndBase d * 3.5
      in if rndStare d < 0.1 then base + 3 + rndStareExtra d * 4 else base)"

text \<open>
  \<open>updateBlink\<close> returns the new state and the weight it sets on the \<open>blink\<close> expression,
  if it sets one.
\<close>

definition updateBlink :: "real \<Rightarrow> blink_draws \<Rightarrow> blink_state \<Rightarrow> blink_state \<times> real option" where
  "updateBlink delta d st =
     (case blinkPhase st of
        Waiting \<Rightarrow>
          let st = st\<lparr>blinkTimer := blinkTimer st - delta\<rparr>
          in if blinkTimer st \<le> 0
             then (st\<lparr>blinkPhase := Closing, blinkT := 0,
                      blinkCloseTime := 0.06 + rndClose d * 0.04,
                      blinkHoldTime := 0.02 + rndHold d * 0.04,
                      blinkOpenTime := 0.08 + rndOpen d * 0.06\<rparr>, None)
             else (st, None)
      | Closing \<Rightarrow>
          let st = st\<lparr>blinkT := blinkT st + delta / blinkCloseTime st\<rparr>
          in if blinkT st \<ge> 1
             then (st\<lparr>blinkT := 0, blinkPhase := Closed\<rparr>, Some 1)
             else (st, Some (easeInQuad (blinkT st)))
      | Closed \<Rightarrow>
          let st = st\<lparr>blinkT := blinkT st + delta / blinkHoldTime st\<rparr>;
              st = (if blinkT st \<ge> 1 then st\<lparr>blinkT := 0, blinkPhase := Opening\<rparr> else st)
          in (st, Some 1)
      | Opening \<Rightarrow>
          let st = st\<lparr>blinkT := blinkT st + delta / blinkOpenTime st\<rparr>
          in if blinkT st \<ge> 1
             then
               let st = st\<lparr>blinkPhase := Waiting, blinkTimer := nextBlinkInterval d\<rparr>;
                   st = (if rndDouble d < 0.15
                         then st\<lparr>blinkTimer := 0.15 + rndDoubleTimer d * 0.1\<rparr> else st)
               in (st, Some 0)
             else (st, Some (1 - easeOutQuad (blinkT st))))"

section \<open>Two-bone inverse kinematics\<close>










section \<open>Jelly spring effect\<close>

record SpringState =
  boneName :: string
  offset :: vec3
  velocity :: vec3
  delay :: real
  delayLeft :: real
  activated :: bool













definition add :: "vec3 \<Rightarrow> vec3 \<Rightarrow> vec3" where
  "add a b = (case a of (ax, ay, az) \<Rightarrow> case b of (bx, by, bz) \<Rightarrow> (ax + bx, ay + by, az + bz))"





section \<open>Properties stated about the program\<close>


subsection \<open>Example inputs\<close>

text \<open>An avatar whose rig has only the hips and the head.\<close>

definition avatar_hips_head :: vrm where
  "avatar_hips_head =
     \<lparr>humanoid = Some [''hips'' \<mapsto> \<lparr>name = ''Normalized_Hips'', position = (0, 1, 0)\<rparr>,
                      ''head'' \<mapsto> \<lparr>name = ''Normalized_Head'', position = (0, 0.5, 0)\<rparr>],
      metaVersion = Some ''1'', hipsRestY = Some 1\<rparr>"

text \<open>
  A library with one idle motion whose file cannot be fetched, and loaders that fail for
  every URL.
\<close>

definition motion_Idle1 :: MotionDef where
  "motion_Idle1 =
     \<lparr>motion_id = ''Idle1'', label = ''Idle1'', category = idle, playMode = loop,
      url = ''/motions/Idle1.fbx'', format = fbx, fadeDuration = 0.5,
      moodTags = [''neutral''], altGroup = ''Idle1'', keyword_list = []\<rparr>"

definition env_no_assets :: env where
  "env_no_assets =
     \<lparr>motionLibrary = [motion_Idle1],
      gltf_loadAsync = (\<lambda>u. Inl (Load_Error ''HTTP 404'')),
      fbx_loadAsync = (\<lambda>u. Inl (Load_Error ''HTTP 404''))\<rparr>"

text \<open>Recording a sequence of plays (motion id and alternation group), oldest first.\<close>

definition record_all :: "MotionHistory \<Rightarrow> (string \<times> string) list \<Rightarrow> MotionHistory" where
  "record_all h plays = foldl (\<lambda>h (i, g). record_motion h i g) h plays"


text \<open>
  A library of three neutral idle loops, each its own alternation group (the default of
  the manifest loader), with files that load.
\<close>

definition idle_motion :: "string \<Rightarrow> MotionDef" where
  "idle_motion n =
     \<lparr>motion_id = n, label = n, category = idle, playMode = loop,
      url = ''/motions/'' @ n @ ''.vrma'', format = vrma, fadeDuration = 0.5,
      moodTags = [''neutral''], altGroup = n, keyword_list = []\<rparr>"

definition env_three_idles :: env where
  "env_three_idles =
     \<lparr>motionLibrary = [idle_motion ''IdleA'', idle_motion ''IdleB'', idle_motion ''IdleC''],
      gltf_loadAsync = (\<lambda>u. Inr [\<lparr>clip_name = u, duration = 2, tracks = []\<rparr>]),
      fbx_loadAsync = (\<lambda>u. Inl (Load_Error ''HTTP 404''))\<rparr>"



text \<open>The history after the plays IdleA, IdleA, IdleB.\<close>

definition history_AAB :: MotionHistory where
  "history_AAB = record_all history_clear [(''IdleA'', ''IdleA''), (''IdleA'', ''IdleA''), (''IdleB'', ''IdleB'')]"


text \<open>
  An avatar (not VRM 0.x) whose rig has the left upper arm, and an asset whose skeleton is
  in the rest pose of the normalized rig: every rest world rotation is the identity.
\<close>

definition avatar_left_arm :: vrm where
  "avatar_left_arm =
     \<lparr>humanoid = Some [''leftUpperArm'' \<mapsto> \<lparr>name = ''Normalized_LeftUpperArm'', position = (0.2, 1.4, 0)\<rparr>],
      metaVersion = Some ''1'', hipsRestY = None\<rparr>"

definition asset_identity_rest :: fbx_asset where
  "asset_identity_rest =
     \<lparr>animations = [],
      getObjectByName = (\<lambda>n. Some \<lparr>worldQuaternion = quat_identity,
                                    parentWorldQuaternion = Some quat_identity,
                                    position_y = 1\<rparr>)\<rparr>"

text \<open>A value of \<open>Math.random()\<close> lies in \<open>[0, 1)\<close>.\<close>

definition unit_interval :: "real \<Rightarrow> bool" where
  "unit_interval r = (0 \<le> r \<and> r < 1)"

definition blink_draws_ok :: "blink_draws \<Rightarrow> bool" where
  "blink_draws_ok d =
     (unit_interval (rndClose d) \<and> unit_interval (rndHold d) \<and> unit_interval (rndOpen d)
      \<and> unit_interval (rndBase d) \<and> unit_interval (rndStare d)
      \<and> unit_interval (rndStareExtra d) \<and> unit_interval (rndDouble d)
      \<and> unit_interval (rndDoubleTimer d))"

text \<open>Draws with which the blink just finished is followed by a double blink.\<close>

definition draws_double_blink :: blink_draws where
  "draws_double_blink =
     \<lparr>rndClose = 0.5, rndHold = 0.5, rndOpen = 0.5, rndBase = 0.2, rndStare = 0.5,
      rndStareExtra = 0.5, rndDouble = 0.1, rndDoubleTimer = 0.5\<rparr>"

definition blink_opening_state :: blink_state where
  "blink_opening_state =
     \<lparr>blinkPhase = Opening, blinkTimer = 0, blinkT = 0.9, blinkCloseTime = 0.08,
      blinkHoldTime = 0.04, blinkOpenTime = 0.1\<rparr>"




definition norm2 :: "vec3 \<Rightarrow> real" where
  "norm2 v = (case v of (x, y, z) \<Rightarrow> x * x + y * y + z * z)"


definition spring_size :: "real \<Rightarrow> SpringState \<Rightarrow> real" where
  "spring_size dt st = norm2 (offset st) + dt * dt * norm2 (velocity st)"






section \<open>Clips hold tracks only for bones that exist\<close>


































section \<open>The hip-hop dance reuses the happy dance\<close>

text \<open>
  Claim C10. For every avatar the generator registered for \<open>dance_hiphop\<close> returns the clip
  of the generator for \<open>dance_happy\<close> with only the name changed: the same tracks (names,
  times and values) and duration, and \<open>null\<close> for exactly the same avatars.
\<close>

theorem dance_hiphop_is_renamed_dance_happy:
  "createProceduralClip v ''dance_hiphop'' =
     map_option (\<lambda>c. c\<lparr>clip_name := ''dance_hiphop''\<rparr>) (createProceduralClip v ''dance_happy'')
   \<and> map_option tracks (createProceduralClip v ''dance_hiphop'') =
       map_option tracks (createProceduralClip v ''dance_happy'')
   \<and> map_option duration (createProceduralClip v ''dance_hiphop'') =
       map_option duration (createProceduralClip v ''dance_happy'')
   \<and> map_option clip_name (createProceduralClip v ''dance_hiphop'') =
       map_option (\<lambda>c. ''dance_hiphop'') (createProceduralClip v ''dance_happy'')
   \<and> (createProceduralClip v ''dance_hiphop'' = None
        \<longleftrightarrow> createProceduralClip v ''dance_happy'' = None)"
  by (simp add: createProceduralClip_def PROCEDURAL_CLIPS_def dance_hiphop_def Let_def
        split: option.splits)

section \<open>Playback requests and their success flag\<close>

lemma bind_avatar_hips_head_mixer:
  "m_mixer (bind new_manager avatar_hips_head) \<noteq> None"
  by (simp add: bind_def dispose_def new_manager_def createFallbackIdle_def Let_def
        getNormalizedBoneNode_def avatar_hips_head_def push_if_def)

lemma playMotion_never_throws: "\<exists>s'. playMotion e s motionId = Inr s'"
  by (auto simp: playMotion_def Let_def split: option.splits prod.splits)

lemma playMotionWithFallback_bound:
  "m_mixer s \<noteq> None \<Longrightarrow> fst (playMotionWithFallback e s motionId) = True"
  using playMotion_never_throws [of e s motionId]
  by (auto simp: playMotionWithFallback_def split: option.splits sum.splits)

text \<open>
  Claim C1, at the input where the code departs from it: the library holds the motion
  \<open>Idle1\<close>, its file cannot be fetched and no procedural generator is registered under
  that id, so no animation is available; with an avatar bound,
  \<open>playMotionWithFallback\<close> still returns \<open>true\<close>.
\<close>

theorem playMotionWithFallback_true_without_animation:
  "fst (loadMotion env_no_assets (bind new_manager avatar_hips_head) ''Idle1'') = None
   \<and> fst (playMotionWithFallback env_no_assets (bind new_manager avatar_hips_head) ''Idle1'') = True"
proof
  have v: "m_vrm (bind new_manager avatar_hips_head) = Some avatar_hips_head"
    by (simp add: bind_def dispose_def new_manager_def createFallbackIdle_def Let_def
          getNormalizedBoneNode_def avatar_hips_head_def push_if_def)
  have c: "clipCache (bind new_manager avatar_hips_head) = Map.empty"
    by (simp add: bind_def dispose_def new_manager_def createFallbackIdle_def Let_def
          getNormalizedBoneNode_def avatar_hips_head_def push_if_def)
  have p: "createProceduralClip avatar_hips_head ''Idle1'' = None"
    by (simp add: createProceduralClip_def PROCEDURAL_CLIPS_def)
  show "fst (loadMotion env_no_assets (bind new_manager avatar_hips_head) ''Idle1'') = None"
    using bind_avatar_hips_head_mixer v c p
    by (auto simp: loadMotion_def Let_def env_no_assets_def motion_Idle1_def
          loadMixamoAnimation_def split: option.splits)
  show "fst (playMotionWithFallback env_no_assets (bind new_manager avatar_hips_head) ''Idle1'') = True"
    using bind_avatar_hips_head_mixer by (rule playMotionWithFallback_bound)
qed

section \<open>Anti-repetition selection\<close>

lemma foldl_plus_sum_list: "foldl (+) a (ws::real list) = a + sum_list ws"
  by (induction ws arbitrary: a) (simp_all add: add.assoc)

lemma draw_loop_least:
  "length ws = length pool \<Longrightarrow> pool \<noteq> [] \<Longrightarrow> r \<le> sum_list ws \<Longrightarrow>
   \<exists>i < length pool. draw_loop pool ws r = Some (pool ! i)
      \<and> r \<le> sum_list (take (Suc i) ws)
      \<and> (\<forall>j < i. sum_list (take (Suc j) ws) < r)"
proof (induction pool ws r rule: draw_loop.induct)
  case (1 m ms w ws r)
  show ?case
  proof (cases "r - w \<le> 0")
    case True
    then show ?thesis by (intro exI[of _ 0]) (simp add: Let_def)
  next
    case False
    with 1 have ms: "ms \<noteq> []" by (cases ms) auto
    from 1 False ms obtain i where i: "i < length ms" "draw_loop ms ws (r - w) = Some (ms ! i)"
      "r - w \<le> sum_list (take (Suc i) ws)" "\<forall>j < i. sum_list (take (Suc j) ws) < r - w"
      by (auto simp: Let_def)
    have "\<forall>j < Suc i. sum_list (take (Suc j) (w # ws)) < r"
    proof (intro allI impI)
      fix j assume "j < Suc i"
      then show "sum_list (take (Suc j) (w # ws)) < r"
        using i(4) False by (cases j) auto
    qed
    with i False show ?thesis
      by (intro exI[of _ "Suc i"]) (simp add: Let_def)
  qed
qed auto

lemma rotation_weight_ge_1: "1 \<le> rotation_weight h pref m"
  by (simp add: rotation_weight_def Let_def max_def)

lemma sum_list_weights_pos:
  "pool \<noteq> [] \<Longrightarrow> 0 < sum_list (map (rotation_weight h pref) pool)"
proof (induction pool)
  case (Cons m ms)
  have "0 \<le> sum_list (map (rotation_weight h pref) ms)"
    by (rule sum_list_nonneg) (use rotation_weight_ge_1 in \<open>auto intro: order_trans[of 0 1]\<close>)
  with rotation_weight_ge_1[of h pref m] show ?case by simp
qed simp

lemma rotation_pool_nonempty: "candidates \<noteq> [] \<Longrightarrow> rotation_pool h candidates \<noteq> []"
  by (auto simp: rotation_pool_def Let_def)

lemma record_motion_history:
  "history (record_motion h i g) =
     (if length (history h) < 10 then history h @ [i] else tl (history h @ [i]))"
  by (simp add: record_motion_def Let_def MAX_HISTORY_def)

lemma record_all_history_aux:
  "length (history h) \<le> 10 \<Longrightarrow>
   history (record_all h plays) =
     drop (length (history h @ map fst plays) - 10) (history h @ map fst plays)"
proof (induction plays arbitrary: h)
  case Nil
  then show ?case by (simp add: record_all_def)
next
  case (Cons p ps)
  obtain i g where p: "p = (i, g)" by (cases p)
  let ?h = "record_motion h i g"
  have len: "length (history ?h) \<le> 10" using Cons.prems
    by (auto simp: record_motion_history)
  have "history (record_all h (p # ps)) = history (record_all ?h ps)"
    by (simp add: record_all_def p)
  also have "\<dots> = drop (length (history ?h @ map fst ps) - 10) (history ?h @ map fst ps)"
    using Cons.IH[OF len] .
  also have "\<dots> = drop (length (history h @ map fst (p # ps)) - 10) (history h @ map fst (p # ps))"
  proof (cases "length (history h) < 10")
    case True
    then show ?thesis by (simp add: record_motion_history p)
  next
    case False
    with Cons.prems have l: "length (history h) = 10" by simp
    then obtain x xs where hx: "history h = x # xs" by (cases "history h") auto
    with l have lx: "length xs = 9" by simp
    show ?thesis using l lx by (simp add: record_motion_history p hx Suc_diff_le drop_Cons')
  qed
  finally show ?case .
qed


text \<open>
  Claim C2. For a non-empty candidate list and any history, the selection draws from the
  candidates with fewer than 2 uses in the history (from all candidates when there is
  none); the weight of each candidate of that pool is \<open>max 1 (3 - uses)\<close>, times 1.5 when
  a preferred alternation group is supplied (a non-empty string) and is the candidate's;
  the candidate returned is the first of the pool at which the running sum of the weights
  reaches \<open>Math.random()\<close> times their total, so it is drawn with probability
  proportional to its weight. The history holds the 10 most recent recorded plays, and
  the uses counted are the occurrences among them.
\<close>

theorem pickWithRotation_weighted_draw:
  assumes "candidates \<noteq> []" and "0 \<le> rnd" and "rnd < 1"
  shows "(\<exists>pool weights i.
           pool = (if \<exists>m \<in> set candidates. recentCount h (motion_id m) < 2
                   then filter (\<lambda>m. recentCount h (motion_id m) < 2) candidates
                   else candidates)
         \<and> weights = map (\<lambda>m. max 1 (3 - real (recentCount h (motion_id m)))
                               * (case preferAltGroup of
                                    Some g \<Rightarrow> if g \<noteq> [] \<and> altGroup m = g then 1.5 else 1
                                  | None \<Rightarrow> 1)) pool
         \<and> i < length pool
         \<and> pickWithRotation h candidates preferAltGroup rnd = Some (pool ! i)
         \<and> rnd * sum_list weights \<le> sum_list (take (Suc i) weights)
         \<and> (\<forall>j < i. sum_list (take (Suc j) weights) < rnd * sum_list weights))
     \<and> history (record_all history_clear plays) = drop (length plays - 10) (map fst plays)
     \<and> recentCount (record_all history_clear plays) x =
           length (filter (\<lambda>i. i = x) (drop (length plays - 10) (map fst plays)))"
proof -
  let ?pool = "rotation_pool h candidates"
  let ?ws = "map (rotation_weight h preferAltGroup) ?pool"
  have ne: "?pool \<noteq> []" using assms(1) by (rule rotation_pool_nonempty)
  have pos: "0 < sum_list ?ws" using ne by (rule sum_list_weights_pos)
  have le: "rnd * sum_list ?ws \<le> sum_list ?ws"
    using assms(3) pos by (simp add: mult_le_cancel_right1)
  from draw_loop_least[of ?ws ?pool "rnd * sum_list ?ws"] ne le
  obtain i where i: "i < length ?pool"
      "draw_loop ?pool ?ws (rnd * sum_list ?ws) = Some (?pool ! i)"
      "rnd * sum_list ?ws \<le> sum_list (take (Suc i) ?ws)"
      "\<forall>j < i. sum_list (take (Suc j) ?ws) < rnd * sum_list ?ws"
    by auto
  have pick: "pickWithRotation h candidates preferAltGroup rnd = Some (?pool ! i)"
    using assms(1) i(2) by (simp add: pickWithRotation_def Let_def foldl_plus_sum_list)
  have pool: "?pool = (if \<exists>m \<in> set candidates. recentCount h (motion_id m) < 2
                       then filter (\<lambda>m. recentCount h (motion_id m) < 2) candidates
                       else candidates)"
    by (auto simp: rotation_pool_def Let_def MAX_SAME_MOTION_USES_def filter_empty_conv)
  have w: "rotation_weight h preferAltGroup =
             (\<lambda>m. max 1 (3 - real (recentCount h (motion_id m)))
                   * (case preferAltGroup of
                        Some g \<Rightarrow> if g \<noteq> [] \<and> altGroup m = g then 1.5 else 1
                      | None \<Rightarrow> 1))"
    by (rule ext) (simp add: rotation_weight_def Let_def MAX_SAME_MOTION_USES_def
          split: option.splits)
  have draw: "\<exists>pool weights i.
           pool = (if \<exists>m \<in> set candidates. recentCount h (motion_id m) < 2
                   then filter (\<lambda>m. recentCount h (motion_id m) < 2) candidates
                   else candidates)
         \<and> weights = map (\<lambda>m. max 1 (3 - real (recentCount h (motion_id m)))
                               * (case preferAltGroup of
                                    Some g \<Rightarrow> if g \<noteq> [] \<and> altGroup m = g then 1.5 else 1
                                  | None \<Rightarrow> 1)) pool
         \<and> i < length pool
         \<and> pickWithRotation h candidates preferAltGroup rnd = Some (pool ! i)
         \<and> rnd * sum_list weights \<le> sum_list (take (Suc i) weights)
         \<and> (\<forall>j < i. sum_list (take (Suc j) weights) < rnd * sum_list weights)"
    apply (rule exI[of _ ?pool], rule exI[of _ ?ws], rule exI[of _ i])
    using i pick pool w by simp
  have h: "history (record_all history_clear plays) = drop (length plays - 10) (map fst plays)"
    using record_all_history_aux[of history_clear plays] by (simp add: history_clear_def)
  have "recentCount (record_all history_clear plays) x =
          length (filter (\<lambda>i. i = x) (drop (length plays - 10) (map fst plays)))"
    by (simp add: recentCount_def h)
  with draw h show ?thesis by blast
qed

lemma history_AAB_eq: "history history_AAB = [''IdleA'', ''IdleA'', ''IdleB'']"
  by (simp add: history_AAB_def record_all_def record_motion_def history_clear_def Let_def MAX_HISTORY_def)

theorem pickWithRotation_weighted_draw_witness:
  "motionLibrary env_three_idles \<noteq> [] \<and> (0::real) \<le> 0.5 \<and> (0.5::real) < 1
   \<and> pickWithRotation history_AAB (motionLibrary env_three_idles) None 0.5 = Some (idle_motion ''IdleC'')
   \<and> recentCount history_AAB ''IdleA'' = 2"
  using pickWithRotation_weighted_draw [of "motionLibrary env_three_idles" "0.5" history_AAB None
          "[(''IdleA'', ''IdleA''), (''IdleA'', ''IdleA''), (''IdleB'', ''IdleB'')]" "''IdleA''"]
  by (simp add: env_three_idles_def pickWithRotation_def rotation_pool_def rotation_weight_def
        recentCount_def history_AAB_eq idle_motion_def Let_def MAX_SAME_MOTION_USES_def)

section \<open>Repetition over consecutive idle selections\<close>


lemma playLoop_history [simp]: "motionHistory (playLoop s c i f) = motionHistory s"
  by (auto simp: playLoop_def Let_def split: option.splits)

lemma playOneShot_history [simp]: "motionHistory (playOneShot s c f) = motionHistory s"
  by (auto simp: playOneShot_def Let_def split: option.splits)

lemma resetToIdle_history [simp]: "motionHistory (resetToIdle s) = motionHistory s"
  by (auto simp: resetToIdle_def Let_def split: option.splits)





























section \<open>One-shot playback over a loop\<close>










section \<open>Retargeting of rotation keyframes\<close>

lemma multiplyQuaternions_identity_left [simp]: "multiplyQuaternions quat_identity q = q"
  by (cases q) (simp add: multiplyQuaternions_def quat_identity_def)

lemma multiplyQuaternions_identity_right [simp]: "multiplyQuaternions q quat_identity = q"
  by (cases q) (simp add: multiplyQuaternions_def quat_identity_def)

lemma invert_identity [simp]: "invert quat_identity = quat_identity"
  by (simp add: invert_def quat_identity_def)

lemma retarget_quaternion_formula:
  "retarget_quaternion False biasQ P Winv q =
     (case biasQ of
        None \<Rightarrow> multiplyQuaternions (multiplyQuaternions P q) Winv
      | Some b \<Rightarrow> multiplyQuaternions b (multiplyQuaternions (multiplyQuaternions P q) Winv))"
  by (simp add: retarget_quaternion_def multiply_def premultiply_def Let_def split: option.splits)

lemma sin_pi_18_pos: "0 < sin (pi / 18)"
  by (rule sin_gt_zero) (use pi_gt_zero in simp_all)

lemma arm_bias_20_left:
  "armBiasQuats 20 ''leftUpperArm'' = Some (Quat 0 0 (- sin (pi / 18)) (cos (pi / 18)))"
proof -
  have "(0.001::real) < 20 * pi / 180" using pi_ge_two by simp
  then have "\<bar>ARM_SPREAD_BIAS_RAD 20\<bar> > 0.001" by (simp add: ARM_SPREAD_BIAS_RAD_def)
  then show ?thesis
    by (simp add: armBiasQuats_def setFromEuler_def ARM_SPREAD_BIAS_RAD_def)
qed

text \<open>
  Claim C5 as stated fails for the upper arms: with the default arm-spread bias of 20
  degrees, on an avatar that is not VRM 0.x and a source skeleton whose rest world
  rotations are all the identity (the rest pose of the normalized rig), the identity
  keyframe of the left upper arm is retargeted to a rotation about Z, not to itself.
\<close>

theorem retarget_upper_arm_counterexample:
  "retarget_track asset_identity_rest avatar_left_arm 20
     (QuaternionKeyframeTrack ''mixamorigLeftArm.quaternion'' [0] [quat_identity])
   = [QuaternionKeyframeTrack ''Normalized_LeftUpperArm.quaternion'' [0]
        [Quat 0 0 (- sin (pi / 18)) (cos (pi / 18))]]
   \<and> Quat 0 0 (- sin (pi / 18)) (cos (pi / 18)) \<noteq> quat_identity"
proof
  have r: "rig_and_property ''mixamorigLeftArm.quaternion'' = (''mixamorigLeftArm'', ''quaternion'')"
    by (simp add: rig_and_property_def)
  have m: "map_of MIXAMO_VRM_RIG_MAP ''mixamorigLeftArm'' = Some ''leftUpperArm''"
    by (simp add: MIXAMO_VRM_RIG_MAP_def)
  show "retarget_track asset_identity_rest avatar_left_arm 20
     (QuaternionKeyframeTrack ''mixamorigLeftArm.quaternion'' [0] [quat_identity])
   = [QuaternionKeyframeTrack ''Normalized_LeftUpperArm.quaternion'' [0]
        [Quat 0 0 (- sin (pi / 18)) (cos (pi / 18))]]"
    by (simp add: retarget_track_def r m arm_bias_20_left getNormalizedBoneNode_def
          avatar_left_arm_def asset_identity_rest_def isVRM0_def Let_def
          retarget_quaternion_def multiply_def premultiply_def)
  show "Quat 0 0 (- sin (pi / 18)) (cos (pi / 18)) \<noteq> quat_identity"
    using sin_pi_18_pos by (simp add: quat_identity_def)
qed

text \<open>
  Claim C5, amended. For an avatar that is not VRM 0.x and a rotation track of a mapped
  bone that exists on the avatar and in the asset, each output keyframe is
  \<open>parentRestWorldRotation \<times> sourceFrameRotation \<times> inverse(sourceRestWorldRotation)\<close>,
  premultiplied by the arm-spread bias rotation where the bone has one. A bone has none
  unless it is one of the two upper arms and the bias exceeds 0.001 rad. For a bone
  without bias whose source rest world rotation and parent rest world rotation are the
  identity, the retargeted track reproduces the original rotations.
\<close>

theorem retarget_rotation_formula:
  assumes "rig_and_property n = (rigName, prop)"
    and "map_of MIXAMO_VRM_RIG_MAP rigName = Some bone"
    and "getNormalizedBoneNode v bone = Some vrmNode"
    and "getObjectByName asset rigName = Some rigNode"
    and "\<not> isVRM0 v"
  shows "retarget_track asset v bias (QuaternionKeyframeTrack n ts vals) =
           [QuaternionKeyframeTrack (name vrmNode @ ''.'' @ prop) ts
              (map (\<lambda>q. let parentRest = (case parentWorldQuaternion rigNode of
                                              Some p \<Rightarrow> p | None \<Rightarrow> quat_identity);
                             r = multiplyQuaternions (multiplyQuaternions parentRest q)
                                   (invert (worldQuaternion rigNode))
                         in case armBiasQuats bias bone of
                              None \<Rightarrow> r
                            | Some b \<Rightarrow> multiplyQuaternions b r) vals)]
       \<and> (armBiasQuats bias bone = None \<and> worldQuaternion rigNode = quat_identity
            \<and> (case parentWorldQuaternion rigNode of Some p \<Rightarrow> p | None \<Rightarrow> quat_identity)
                = quat_identity
          \<longrightarrow> retarget_track asset v bias (QuaternionKeyframeTrack n ts vals) =
                [QuaternionKeyframeTrack (name vrmNode @ ''.'' @ prop) ts vals])
       \<and> (bone \<noteq> ''leftUpperArm'' \<and> bone \<noteq> ''rightUpperArm'' \<longrightarrow> armBiasQuats bias bone = None)
       \<and> (\<bar>bias * pi / 180\<bar> \<le> 0.001 \<longrightarrow> armBiasQuats bias bone = None)"
proof -
  have a: "retarget_track asset v bias (QuaternionKeyframeTrack n ts vals) =
           [QuaternionKeyframeTrack (name vrmNode @ ''.'' @ prop) ts
              (map (\<lambda>q. let parentRest = (case parentWorldQuaternion rigNode of
                                              Some p \<Rightarrow> p | None \<Rightarrow> quat_identity);
                             r = multiplyQuaternions (multiplyQuaternions parentRest q)
                                   (invert (worldQuaternion rigNode))
                         in case armBiasQuats bias bone of
                              None \<Rightarrow> r
                            | Some b \<Rightarrow> multiplyQuaternions b r) vals)]"
    using assms
    by (simp add: retarget_track_def Let_def retarget_quaternion_formula cong: option.case_cong)
  have b: "armBiasQuats bias bone = None \<and> worldQuaternion rigNode = quat_identity
            \<and> (case parentWorldQuaternion rigNode of Some p \<Rightarrow> p | None \<Rightarrow> quat_identity)
                = quat_identity
          \<longrightarrow> retarget_track asset v bias (QuaternionKeyframeTrack n ts vals) =
                [QuaternionKeyframeTrack (name vrmNode @ ''.'' @ prop) ts vals]"
    unfolding a by (auto simp: Let_def)
  have c: "bone \<noteq> ''leftUpperArm'' \<and> bone \<noteq> ''rightUpperArm'' \<longrightarrow> armBiasQuats bias bone = None"
    by (simp add: armBiasQuats_def)
  have d: "\<bar>bias * pi / 180\<bar> \<le> 0.001 \<longrightarrow> armBiasQuats bias bone = None"
    by (simp add: armBiasQuats_def ARM_SPREAD_BIAS_RAD_def)
  from a b c d show ?thesis by blast
qed


theorem retarget_rotation_formula_witness:
  "rig_and_property ''mixamorigHead.quaternion'' = (''mixamorigHead'', ''quaternion'')
   \<and> map_of MIXAMO_VRM_RIG_MAP ''mixamorigHead'' = Some ''head''
   \<and> getNormalizedBoneNode avatar_hips_head ''head''
       = Some \<lparr>name = ''Normalized_Head'', position = (0, 0.5, 0)\<rparr>
   \<and> \<not> isVRM0 avatar_hips_head
   \<and> retarget_track asset_identity_rest avatar_hips_head 20
        (QuaternionKeyframeTrack ''mixamorigHead.quaternion'' [0, 1]
           [Quat 0 0.6 0 0.8, Quat 0 0 0 1])
      = [QuaternionKeyframeTrack ''Normalized_Head.quaternion'' [0, 1]
           [Quat 0 0.6 0 0.8, Quat 0 0 0 1]]"
proof -
  have r: "rig_and_property ''mixamorigHead.quaternion'' = (''mixamorigHead'', ''quaternion'')"
    by (simp add: rig_and_property_def)
  have m: "map_of MIXAMO_VRM_RIG_MAP ''mixamorigHead'' = Some ''head''"
    by (simp add: MIXAMO_VRM_RIG_MAP_def)
  have g: "getNormalizedBoneNode avatar_hips_head ''head''
       = Some \<lparr>name = ''Normalized_Head'', position = (0, 0.5, 0)\<rparr>"
    by (simp add: getNormalizedBoneNode_def avatar_hips_head_def)
  have o: "getObjectByName asset_identity_rest ''mixamorigHead''
       = Some \<lparr>worldQuaternion = quat_identity, parentWorldQuaternion = Some quat_identity,
               position_y = 1\<rparr>"
    by (simp add: asset_identity_rest_def)
  have v: "\<not> isVRM0 avatar_hips_head"
    by (simp add: isVRM0_def avatar_hips_head_def)
  from retarget_rotation_formula[OF r m g o v, of 20 "[0, 1]" "[Quat 0 0.6 0 0.8, Quat 0 0 0 1]"]
  show ?thesis using r m g v by simp
qed

section \<open>Two-bone inverse kinematics: the elbow angle\<close>












section \<open>The blink state machine\<close>

text \<open>
  Claim C7. With random values in \<open>[0, 1)\<close>, one update of the blink controller does the
  following. Waiting: the countdown goes down by the time step; when it reaches zero the
  phase becomes closing, with a closing time in 60-100 ms, a hold time in 20-60 ms and an
  opening time in 80-140 ms drawn anew. Closing: the progress advances by the time step
  over the closing time; below 1 the blink weight is its square (ease-in), from 1 on the
  weight is 1 and the phase becomes closed. Closed: the weight is 1; when the progress over
  the hold time reaches 1 the phase becomes opening. Opening: below 1 the weight is
  \<open>1 - t (2 - t)\<close> (ease-out), from 1 on the weight is 0 and the phase becomes waiting, with
  a countdown of 150-250 ms when the double-blink draw is below 0.15, and else of 2.5-6 s,
  extended by 3-7 s when the stare draw is below 0.1.
\<close>

theorem blink_cycle:
  assumes "blink_draws_ok d"
  shows "(blinkPhase st = Waiting \<longrightarrow>
            (blinkTimer st - delta \<le> 0 \<longrightarrow>
               blinkPhase (fst (updateBlink delta d st)) = Closing
               \<and> blinkT (fst (updateBlink delta d st)) = 0
               \<and> 0.06 \<le> blinkCloseTime (fst (updateBlink delta d st))
               \<and> blinkCloseTime (fst (updateBlink delta d st)) < 0.1
               \<and> 0.02 \<le> blinkHoldTime (fst (updateBlink delta d st))
               \<and> blinkHoldTime (fst (updateBlink delta d st)) < 0.06
               \<and> 0.08 \<le> blinkOpenTime (fst (updateBlink delta d st))
               \<and> blinkOpenTime (fst (updateBlink delta d st)) < 0.14
               \<and> snd (updateBlink delta d st) = None)
          \<and> (0 < blinkTimer st - delta \<longrightarrow>
               updateBlink delta d st = (st\<lparr>blinkTimer := blinkTimer st - delta\<rparr>, None)))
       \<and> (blinkPhase st = Closing \<longrightarrow>
            (1 \<le> blinkT st + delta / blinkCloseTime st \<longrightarrow>
               updateBlink delta d st = (st\<lparr>blinkT := 0, blinkPhase := Closed\<rparr>, Some 1))
          \<and> (blinkT st + delta / blinkCloseTime st < 1 \<longrightarrow>
               updateBlink delta d st
                 = (st\<lparr>blinkT := blinkT st + delta / blinkCloseTime st\<rparr>,
                    Some ((blinkT st + delta / blinkCloseTime st)\<^sup>2))))
       \<and> (blinkPhase st = Closed \<longrightarrow>
            (1 \<le> blinkT st + delta / blinkHoldTime st \<longrightarrow>
               updateBlink delta d st = (st\<lparr>blinkT := 0, blinkPhase := Opening\<rparr>, Some 1))
          \<and> (blinkT st + delta / blinkHoldTime st < 1 \<longrightarrow>
               updateBlink delta d st
                 = (st\<lparr>blinkT := blinkT st + delta / blinkHoldTime st\<rparr>, Some 1)))
       \<and> (blinkPhase st = Opening \<longrightarrow>
            (blinkT st + delta / blinkOpenTime st < 1 \<longrightarrow>
               updateBlink delta d st
                 = (st\<lparr>blinkT := blinkT st + delta / blinkOpenTime st\<rparr>,
                    Some (1 - (blinkT st + delta / blinkOpenTime st)
                                * (2 - (blinkT st + delta / blinkOpenTime st))))
               \<and> 1 - (blinkT st + delta / blinkOpenTime st)
                        * (2 - (blinkT st + delta / blinkOpenTime st))
                   = (1 - (blinkT st + delta / blinkOpenTime st))\<^sup>2)
          \<and> (1 \<le> blinkT st + delta / blinkOpenTime st \<longrightarrow>
               blinkPhase (fst (updateBlink delta d st)) = Waiting
               \<and> snd (updateBlink delta d st) = Some 0
               \<and> (rndDouble d < 0.15 \<longrightarrow>
                    blinkTimer (fst (updateBlink delta d st)) = 0.15 + rndDoubleTimer d * 0.1
                    \<and> 0.15 \<le> blinkTimer (fst (updateBlink delta d st))
                    \<and> blinkTimer (fst (updateBlink delta d st)) < 0.25)
               \<and> (0.15 \<le> rndDouble d \<and> 0.1 \<le> rndStare d \<longrightarrow>
                    blinkTimer (fst (updateBlink delta d st)) = 2.5 + rndBase d * 3.5
                    \<and> 2.5 \<le> blinkTimer (fst (updateBlink delta d st))
                    \<and> blinkTimer (fst (updateBlink delta d st)) < 6)
               \<and> (0.15 \<le> rndDouble d \<and> rndStare d < 0.1 \<longrightarrow>
                    blinkTimer (fst (updateBlink delta d st))
                      = (2.5 + rndBase d * 3.5) + (3 + rndStareExtra d * 4)
                    \<and> 3 \<le> 3 + rndStareExtra d * 4 \<and> 3 + rndStareExtra d * 4 < 7)))"
proof -
  from assms have r: "0 \<le> rndClose d" "rndClose d < 1" "0 \<le> rndHold d" "rndHold d < 1"
    "0 \<le> rndOpen d" "rndOpen d < 1" "0 \<le> rndBase d" "rndBase d < 1"
    "0 \<le> rndStareExtra d" "rndStareExtra d < 1" "0 \<le> rndDoubleTimer d" "rndDoubleTimer d < 1"
    by (simp_all add: blink_draws_ok_def unit_interval_def)
  have w: "blinkPhase st = Waiting \<longrightarrow>
            (blinkTimer st - delta \<le> 0 \<longrightarrow>
               blinkPhase (fst (updateBlink delta d st)) = Closing
               \<and> blinkT (fst (updateBlink delta d st)) = 0
               \<and> 0.06 \<le> blinkCloseTime (fst (updateBlink delta d st))
               \<and> blinkCloseTime (fst (updateBlink delta d st)) < 0.1
               \<and> 0.02 \<le> blinkHoldTime (fst (updateBlink delta d st))
               \<and> blinkHoldTime (fst (updateBlink delta d st)) < 0.06
               \<and> 0.08 \<le> blinkOpenTime (fst (updateBlink delta d st))
               \<and> blinkOpenTime (fst (updateBlink delta d st)) < 0.14
               \<and> snd (updateBlink delta d st) = None)
          \<and> (0 < blinkTimer st - delta \<longrightarrow>
               updateBlink delta d st = (st\<lparr>blinkTimer := blinkTimer st - delta\<rparr>, None))"
    using r by (auto simp: updateBlink_def Let_def)
  have c: "blinkPhase st = Closing \<longrightarrow>
            (1 \<le> blinkT st + delta / blinkCloseTime st \<longrightarrow>
               updateBlink delta d st = (st\<lparr>blinkT := 0, blinkPhase := Closed\<rparr>, Some 1))
          \<and> (blinkT st + delta / blinkCloseTime st < 1 \<longrightarrow>
               updateBlink delta d st
                 = (st\<lparr>blinkT := blinkT st + delta / blinkCloseTime st\<rparr>,
                    Some ((blinkT st + delta / blinkCloseTime st)\<^sup>2)))"
    by (auto simp: updateBlink_def Let_def easeInQuad_def power2_eq_square)
  have h: "blinkPhase st = Closed \<longrightarrow>
            (1 \<le> blinkT st + delta / blinkHoldTime st \<longrightarrow>
               updateBlink delta d st = (st\<lparr>blinkT := 0, blinkPhase := Opening\<rparr>, Some 1))
          \<and> (blinkT st + delta / blinkHoldTime st < 1 \<longrightarrow>
               updateBlink delta d st
                 = (st\<lparr>blinkT := blinkT st + delta / blinkHoldTime st\<rparr>, Some 1))"
    by (auto simp: updateBlink_def Let_def)
  have sq: "1 - (blinkT st + delta / blinkOpenTime st)
                        * (2 - (blinkT st + delta / blinkOpenTime st))
                   = (1 - (blinkT st + delta / blinkOpenTime st))\<^sup>2"
    by (simp add: power2_eq_square algebra_simps)
  have o1: "blinkPhase st = Opening \<longrightarrow> blinkT st + delta / blinkOpenTime st < 1 \<longrightarrow>
               updateBlink delta d st
                 = (st\<lparr>blinkT := blinkT st + delta / blinkOpenTime st\<rparr>,
                    Some (1 - (blinkT st + delta / blinkOpenTime st)
                                * (2 - (blinkT st + delta / blinkOpenTime st))))"
    by (auto simp: updateBlink_def Let_def easeOutQuad_def)
  have o2: "blinkPhase st = Opening \<longrightarrow> 1 \<le> blinkT st + delta / blinkOpenTime st \<longrightarrow>
               blinkPhase (fst (updateBlink delta d st)) = Waiting
               \<and> snd (updateBlink delta d st) = Some 0
               \<and> (rndDouble d < 0.15 \<longrightarrow>
                    blinkTimer (fst (updateBlink delta d st)) = 0.15 + rndDoubleTimer d * 0.1
                    \<and> 0.15 \<le> blinkTimer (fst (updateBlink delta d st))
                    \<and> blinkTimer (fst (updateBlink delta d st)) < 0.25)
               \<and> (0.15 \<le> rndDouble d \<and> 0.1 \<le> rndStare d \<longrightarrow>
                    blinkTimer (fst (updateBlink delta d st)) = 2.5 + rndBase d * 3.5
                    \<and> 2.5 \<le> blinkTimer (fst (updateBlink delta d st))
                    \<and> blinkTimer (fst (updateBlink delta d st)) < 6)
               \<and> (0.15 \<le> rndDouble d \<and> rndStare d < 0.1 \<longrightarrow>
                    blinkTimer (fst (updateBlink delta d st))
                      = (2.5 + rndBase d * 3.5) + (3 + rndStareExtra d * 4)
                    \<and> 3 \<le> 3 + rndStareExtra d * 4 \<and> 3 + rndStareExtra d * 4 < 7)"
    using r by (auto simp: updateBlink_def Let_def nextBlinkInterval_def)
  from w c h sq o1 o2 show ?thesis by blast
qed

theorem blink_cycle_witness:
  "blink_draws_ok draws_double_blink
   \<and> blinkPhase blink_opening_state = Opening
   \<and> 1 \<le> blinkT blink_opening_state + 0.016 / blinkOpenTime blink_opening_state
   \<and> rndDouble draws_double_blink < 0.15
   \<and> blinkPhase (fst (updateBlink 0.016 draws_double_blink blink_opening_state)) = Waiting
   \<and> blinkTimer (fst (updateBlink 0.016 draws_double_blink blink_opening_state)) = 0.2
   \<and> snd (updateBlink 0.016 draws_double_blink blink_opening_state) = Some 0"
proof -
  have ok: "blink_draws_ok draws_double_blink"
    by (simp add: blink_draws_ok_def unit_interval_def draws_double_blink_def)
  from blink_cycle[OF ok, of blink_opening_state "0.016"]
  show ?thesis using ok
    by (simp add: blink_opening_state_def draws_double_blink_def)
qed

section \<open>Settling of the jelly springs\<close>

subsection \<open>One Euler step lowers a weighted energy\<close>








lemma norm2_nonneg: "0 \<le> norm2 v"
  by (cases v) (simp add: norm2_def)




subsection \<open>A single spring settles\<close>










lemma spring_size_nonneg: "0 \<le> spring_size dt st"
  using norm2_nonneg[of "offset st"] norm2_nonneg[of "velocity st"]
  by (simp add: spring_size_def)







subsection \<open>The loop over the springs and the effect as a whole\<close>

























end
